theory Spec2Isabelle
  imports Complex_Main "HOL-Library.Sublist" "HOL-Library.Char_ord" "HOL-Library.List_Lexorder"
begin

section \<open>The table of observations\<close>

text \<open>
  \<^verbatim>\<open>analyze_covid_data\<close> in \<^verbatim>\<open>src/project.py\<close> reads a CSV file into a pandas
  data frame and transforms it column by column. The frame is modelled as the list of
  its rows in index order together with the list of its column labels.

  \<^item> A date cell is missing (\<open>NaT\<close>), a string as read from the file, an integer
    (which \<^verbatim>\<open>pd.to_datetime\<close> reads as a time since the epoch), or a time stamp after
    \<^verbatim>\<open>pd.to_datetime\<close>.
  \<^item> The country of a row of the source is a string; the type of the country is a
    parameter of the row because the summary of line 133 can have rows without one.
  \<^item> A cell of a numeric source column is a number or missing (pandas writes the
    missing value as NaN): \<open>real option\<close>. Numbers are exact reals: rounding and signed
    zeros of float64 are not modelled, and a source cell is never infinite.
  \<^item> A cell of a derived ratio column is the result of a float64 division, which is
    a number, NaN, or an infinity.
  \<^item> The fields of a column that is not in \<open>columns\<close> are never read: every access
    to an absent column raises \<^verbatim>\<open>KeyError\<close> first.
\<close>

datatype datecell = NaT | DateStr string | DateInt int | Timestamp int

datatype fval = NaN | Fin real | PosInf | NegInf

record 'k obs =
  location :: 'k
  date :: datecell
  total_cases :: "real option"
  new_cases :: "real option"
  total_deaths :: "real option"
  new_deaths :: "real option"
  total_vaccinations :: "real option"
  people_vaccinated :: "real option"
  population :: "real option"
  death_rate :: fval
  vaccination_rate :: fval

type_synonym row = "string obs"

type_synonym summary_row = "string option obs"

record frame =
  columns :: "string list"
  rows :: "row list"

text \<open>The exceptions the three \<^verbatim>\<open>except\<close> clauses tell apart; the payload is \<^verbatim>\<open>str(e)\<close>.\<close>

datatype exn = FileNotFoundError | KeyError string | Exception string

text \<open>The six columns of \<^verbatim>\<open>numeric_cols\<close> (line 45), with their labels and cells.\<close>

datatype numcol =
  Total_cases | New_cases | Total_deaths | New_deaths | Total_vaccinations | People_vaccinated

definition numeric_cols :: "numcol list" where
  "numeric_cols =
     [Total_cases, New_cases, Total_deaths, New_deaths, Total_vaccinations, People_vaccinated]"

fun col_name :: "numcol \<Rightarrow> string" where
  "col_name Total_cases = ''total_cases''"
| "col_name New_cases = ''new_cases''"
| "col_name Total_deaths = ''total_deaths''"
| "col_name New_deaths = ''new_deaths''"
| "col_name Total_vaccinations = ''total_vaccinations''"
| "col_name People_vaccinated = ''people_vaccinated''"

fun getc :: "numcol \<Rightarrow> row \<Rightarrow> real option" where
  "getc Total_cases r = total_cases r"
| "getc New_cases r = new_cases r"
| "getc Total_deaths r = total_deaths r"
| "getc New_deaths r = new_deaths r"
| "getc Total_vaccinations r = total_vaccinations r"
| "getc People_vaccinated r = people_vaccinated r"

fun setc :: "numcol \<Rightarrow> real option \<Rightarrow> row \<Rightarrow> row" where
  "setc Total_cases v r = r\<lparr>total_cases := v\<rparr>"
| "setc New_cases v r = r\<lparr>new_cases := v\<rparr>"
| "setc Total_deaths v r = r\<lparr>total_deaths := v\<rparr>"
| "setc New_deaths v r = r\<lparr>new_deaths := v\<rparr>"
| "setc Total_vaccinations v r = r\<lparr>total_vaccinations := v\<rparr>"
| "setc People_vaccinated v r = r\<lparr>people_vaccinated := v\<rparr>"

definition quoted :: "string \<Rightarrow> string" where
  "quoted s = CHR 0x27 # s @ [CHR 0x27]"

definition has_col :: "string \<Rightarrow> frame \<Rightarrow> bool" where
  "has_col c df = (c \<in> set (columns df))"

text \<open>Assigning to \<^verbatim>\<open>df[c]\<close> appends the label when the column is new.\<close>

definition add_col :: "string \<Rightarrow> string list \<Rightarrow> string list" where
  "add_col c cs = (if c \<in> set cs then cs else cs @ [c])"

section \<open>Cleaning (lines 36 to 50)\<close>

subsection \<open>Line 36: the rows of the selected countries\<close>

text \<open>
  \<^verbatim>\<open>df[df['location'].isin(selected_countries)]\<close>: \<open>isin\<close> is the boolean mask,
  \<open>boolean_index\<close> keeps the rows where the mask is true.
\<close>

definition isin :: "string list \<Rightarrow> row list \<Rightarrow> bool list" where
  "isin selected rs = map (\<lambda>r. location r \<in> set selected) rs"

definition boolean_index :: "row list \<Rightarrow> bool list \<Rightarrow> row list" where
  "boolean_index rs keep = map fst (filter snd (zip rs keep))"

definition filter_rows :: "string list \<Rightarrow> row list \<Rightarrow> row list" where
  "filter_rows selected rs = boolean_index rs (isin selected rs)"

definition filter_selected :: "string list \<Rightarrow> frame \<Rightarrow> exn + frame" where
  "filter_selected selected df =
     (if has_col ''location'' df
      then Inr (df\<lparr>rows := filter_rows selected (rows df)\<rparr>)
      else Inl (KeyError (quoted ''location'')))"

subsection \<open>Line 39: rows without a date are dropped\<close>

definition dropna_date :: "frame \<Rightarrow> exn + frame" where
  "dropna_date df =
     (if has_col ''date'' df
      then Inr (df\<lparr>rows := filter (\<lambda>r. date r \<noteq> NaT) (rows df)\<rparr>)
      else Inl (KeyError (''['' @ quoted ''date'' @ '']'')))"

subsection \<open>Line 42: the dates are parsed\<close>

text \<open>
  \<^verbatim>\<open>pd.to_datetime\<close> is a library function: its parser of strings is the parameter
  \<open>parse\<close>. On a string it raises (\<open>Unparseable\<close>), gives the missing date
  (\<open>Missing\<close>: pandas reads strings such as \<^verbatim>\<open>NaT\<close> so, and \<^verbatim>\<open>read_csv\<close> leaves
  them as strings), or gives a time stamp. An integer is a time since the epoch, and a
  time stamp stays as it is.
\<close>

datatype parsed = Unparseable | Missing | Parsed int

fun to_datetime_cell :: "(string \<Rightarrow> parsed) \<Rightarrow> datecell \<Rightarrow> exn + datecell" where
  "to_datetime_cell parse NaT = Inr NaT"
| "to_datetime_cell parse (Timestamp t) = Inr (Timestamp t)"
| "to_datetime_cell parse (DateInt n) = Inr (Timestamp n)"
| "to_datetime_cell parse (DateStr s) =
     (case parse s of
        Unparseable \<Rightarrow>
          Inl (Exception (''Unknown datetime string format, unable to parse: '' @ s))
      | Missing \<Rightarrow> Inr NaT
      | Parsed t \<Rightarrow> Inr (Timestamp t))"

fun to_datetime :: "(string \<Rightarrow> parsed) \<Rightarrow> row list \<Rightarrow> exn + row list" where
  "to_datetime parse [] = Inr []"
| "to_datetime parse (r # rs) =
     (case to_datetime_cell parse (date r) of
        Inl e \<Rightarrow> Inl e
      | Inr d \<Rightarrow>
          (case to_datetime parse rs of
             Inl e \<Rightarrow> Inl e
           | Inr rs' \<Rightarrow> Inr (r\<lparr>date := d\<rparr> # rs')))"

subsection \<open>Lines 45 to 47: interpolation within each country\<close>

text \<open>
  \<^verbatim>\<open>Series.interpolate()\<close> with its defaults (\<^verbatim>\<open>method='linear'\<close>,
  \<^verbatim>\<open>limit_direction='forward'\<close>) ignores the index and takes the values as equally
  spaced. A run of \<open>k\<close> missing values between \<open>a\<close> and \<open>b\<close> is filled on the straight
  line from \<open>a\<close> to \<open>b\<close>; missing values after the last known value repeat it; missing
  values before the first known value stay missing.

  \<open>fill a k xs\<close> is the rest of the series after the known value \<open>a\<close> and \<open>k\<close> missing
  values.
\<close>

fun fill :: "real \<Rightarrow> nat \<Rightarrow> real option list \<Rightarrow> real option list" where
  "fill a k [] = replicate k (Some a)"
| "fill a k (None # xs) = fill a (Suc k) xs"
| "fill a k (Some b # xs) =
     map (\<lambda>i. Some ((b - a) / real (Suc k) * real i + a)) [1..<Suc k] @ Some b # fill b 0 xs"

fun interpolate :: "real option list \<Rightarrow> real option list" where
  "interpolate [] = []"
| "interpolate (None # xs) = None # interpolate xs"
| "interpolate (Some a # xs) = Some a # fill a 0 xs"

text \<open>
  \<^verbatim>\<open>df.groupby('location')[col].apply(lambda x: x.interpolate())\<close> gives one series
  for each country, the values of the country's rows in the order of the frame. The
  assignment to \<^verbatim>\<open>df_filtered[col]\<close> aligns them on the index: going through the
  frame, each row takes the next value of its country's series. This is the result
  with the frame's own index, as pandas 1.x gives it for a function that returns a
  series of the group's shape.
\<close>

definition group_rows :: "string \<Rightarrow> row list \<Rightarrow> row list" where
  "group_rows g rs = filter (\<lambda>r. location r = g) rs"

fun assign_grouped :: "numcol \<Rightarrow> (string \<Rightarrow> real option list) \<Rightarrow> row list \<Rightarrow> row list" where
  "assign_grouped c res [] = []"
| "assign_grouped c res (r # rs) =
     (case res (location r) of
        [] \<Rightarrow> setc c None r # assign_grouped c res rs
      | v # vs \<Rightarrow> setc c v r # assign_grouped c (res(location r := vs)) rs)"

definition interpolate_col :: "numcol \<Rightarrow> row list \<Rightarrow> row list" where
  "interpolate_col c rs =
     assign_grouped c (\<lambda>g. interpolate (map (getc c) (group_rows g rs))) rs"

fun interpolate_cols :: "numcol list \<Rightarrow> frame \<Rightarrow> exn + frame" where
  "interpolate_cols [] df = Inr df"
| "interpolate_cols (c # cs) df =
     (if has_col (col_name c) df
      then interpolate_cols cs (df\<lparr>rows := interpolate_col c (rows df)\<rparr>)
      else Inl (KeyError (quoted (''Column not found: '' @ col_name c))))"

subsection \<open>Line 50: what is still missing becomes 0\<close>

text \<open>
  \<^verbatim>\<open>fillna(0)\<close> goes over every column of the frame, the date column too. Line 39
  dropped the rows without a date, but a date string that line 42 parsed to the missing
  date is missing here, and becomes the integer 0.
\<close>

fun fillna_date :: "datecell \<Rightarrow> datecell" where
  "fillna_date NaT = DateInt 0"
| "fillna_date d = d"

fun fillna_cell :: "real option \<Rightarrow> real option" where
  "fillna_cell None = Some 0"
| "fillna_cell (Some v) = Some v"

fun fillna_fval :: "fval \<Rightarrow> fval" where
  "fillna_fval NaN = Fin 0"
| "fillna_fval v = v"

definition fillna_row :: "row \<Rightarrow> row" where
  "fillna_row r =
     r\<lparr>date := fillna_date (date r),
       total_cases := fillna_cell (total_cases r),
       new_cases := fillna_cell (new_cases r),
       total_deaths := fillna_cell (total_deaths r),
       new_deaths := fillna_cell (new_deaths r),
       total_vaccinations := fillna_cell (total_vaccinations r),
       people_vaccinated := fillna_cell (people_vaccinated r),
       population := fillna_cell (population r),
       death_rate := fillna_fval (death_rate r),
       vaccination_rate := fillna_fval (vaccination_rate r)\<rparr>"

definition fillna :: "frame \<Rightarrow> frame" where
  "fillna df = df\<lparr>rows := map fillna_row (rows df)\<rparr>"

definition clean_core :: "(string \<Rightarrow> parsed) \<Rightarrow> string list \<Rightarrow> frame \<Rightarrow> exn + frame" where
  "clean_core parse selected df =
     (case filter_selected selected df of
        Inl e \<Rightarrow> Inl e
      | Inr df1 \<Rightarrow>
     (case dropna_date df1 of
        Inl e \<Rightarrow> Inl e
      | Inr df2 \<Rightarrow>
     (case to_datetime parse (rows df2) of
        Inl e \<Rightarrow> Inl e
      | Inr rs3 \<Rightarrow>
     (case interpolate_cols numeric_cols (df2\<lparr>rows := rs3\<rparr>) of
        Inl e \<Rightarrow> Inl e
      | Inr df4 \<Rightarrow> Inr (fillna df4)))))"

section \<open>The two ratios (lines 92 and 117)\<close>

text \<open>
  Division of two float64 columns never raises: a missing operand gives NaN, \<open>0 / 0\<close>
  gives NaN, and any other number divided by 0 gives an infinity of its sign.
\<close>

fun truediv :: "real option \<Rightarrow> real option \<Rightarrow> fval" where
  "truediv (Some a) (Some b) =
     (if b \<noteq> 0 then Fin (a / b)
      else if a = 0 then NaN
      else if 0 < a then PosInf
      else NegInf)"
| "truediv _ _ = NaN"

fun times100 :: "fval \<Rightarrow> fval" where
  "times100 (Fin x) = Fin (x * 100)"
| "times100 v = v"

definition death_rate_of :: "row \<Rightarrow> fval" where
  "death_rate_of r = truediv (total_deaths r) (total_cases r)"

definition vaccination_rate_of :: "'k obs \<Rightarrow> fval" where
  "vaccination_rate_of r = times100 (truediv (people_vaccinated r) (population r))"

definition derive_death_rate :: "frame \<Rightarrow> exn + frame" where
  "derive_death_rate df =
     (if \<not> has_col ''total_deaths'' df then Inl (KeyError (quoted ''total_deaths''))
      else if \<not> has_col ''total_cases'' df then Inl (KeyError (quoted ''total_cases''))
      else Inr (df\<lparr>columns := add_col ''death_rate'' (columns df),
                   rows := map (\<lambda>r. r\<lparr>death_rate := death_rate_of r\<rparr>) (rows df)\<rparr>))"

definition derive_vaccination_rate :: "frame \<Rightarrow> exn + frame" where
  "derive_vaccination_rate df =
     (if \<not> has_col ''people_vaccinated'' df then Inl (KeyError (quoted ''people_vaccinated''))
      else if \<not> has_col ''population'' df then Inl (KeyError (quoted ''population''))
      else Inr (df\<lparr>columns := add_col ''vaccination_rate'' (columns df),
                   rows := map (\<lambda>r. r\<lparr>vaccination_rate := vaccination_rate_of r\<rparr>) (rows df)\<rparr>))"

text \<open>
  The specification's \<open>clean\<close> is the six steps together: lines 36 to 50, then the
  two derived columns.
\<close>

definition clean :: "(string \<Rightarrow> parsed) \<Rightarrow> string list \<Rightarrow> frame \<Rightarrow> exn + frame" where
  "clean parse selected df =
     (case clean_core parse selected df of
        Inl e \<Rightarrow> Inl e
      | Inr df1 \<Rightarrow>
     (case derive_death_rate df1 of
        Inl e \<Rightarrow> Inl e
      | Inr df2 \<Rightarrow> derive_vaccination_rate df2))"

section \<open>The latest row of each country (lines 130 to 134)\<close>

text \<open>
  \<^verbatim>\<open>groupby('location').last()\<close> has one row for each country, the countries in
  ascending order, and takes each column on its own: the last value of the group, in
  the order of the frame, that is not missing.
\<close>

fun last_valid :: "'a option list \<Rightarrow> 'a option" where
  "last_valid [] = None"
| "last_valid (x # xs) = (case last_valid xs of None \<Rightarrow> x | Some v \<Rightarrow> Some v)"

fun last_fval :: "fval list \<Rightarrow> fval" where
  "last_fval [] = NaN"
| "last_fval (x # xs) = (case last_fval xs of NaN \<Rightarrow> x | v \<Rightarrow> v)"

fun last_date :: "datecell list \<Rightarrow> datecell" where
  "last_date [] = NaT"
| "last_date (x # xs) = (case last_date xs of NaT \<Rightarrow> x | d \<Rightarrow> d)"

definition group_keys :: "row list \<Rightarrow> string list" where
  "group_keys rs = sort (remdups (map location rs))"

definition last_of_group :: "string \<Rightarrow> row list \<Rightarrow> row" where
  "last_of_group g grp =
     \<lparr>location = g,
      date = last_date (map date grp),
      total_cases = last_valid (map total_cases grp),
      new_cases = last_valid (map new_cases grp),
      total_deaths = last_valid (map total_deaths grp),
      new_deaths = last_valid (map new_deaths grp),
      total_vaccinations = last_valid (map total_vaccinations grp),
      people_vaccinated = last_valid (map people_vaccinated grp),
      population = last_valid (map population grp),
      death_rate = last_fval (map death_rate grp),
      vaccination_rate = last_fval (map vaccination_rate grp)\<rparr>"

definition groupby_last :: "row list \<Rightarrow> row list" where
  "groupby_last rs = map (\<lambda>g. last_of_group g (group_rows g rs)) (group_keys rs)"

text \<open>\<^verbatim>\<open>str(n)\<close> for the message of the length check.\<close>

fun str_nat :: "nat \<Rightarrow> string" where
  "str_nat n =
     (if n < 10 then [char_of (48 + n)]
      else str_nat (n div 10) @ [char_of (48 + n mod 10)])"

declare str_nat.simps [simp del]

text \<open>
  \<^verbatim>\<open>reset_index()\<close> makes the group keys a column of the summary again.
\<close>

definition reset_index :: "row list \<Rightarrow> summary_row list" where
  "reset_index rs =
     map (\<lambda>r. \<lparr>location = Some (location r), date = date r, total_cases = total_cases r,
               new_cases = new_cases r, total_deaths = total_deaths r,
               new_deaths = new_deaths r, total_vaccinations = total_vaccinations r,
               people_vaccinated = people_vaccinated r, population = population r,
               death_rate = death_rate r, vaccination_rate = vaccination_rate r\<rparr>) rs"

text \<open>
  Line 133 assigns a list to the population column. On a frame without rows pandas
  takes the index from the list: the frame gets one row for each value, with every
  other column missing. On a frame with rows pandas raises \<^verbatim>\<open>ValueError\<close> unless the
  list is as long as the frame.
\<close>

definition reindexed_row :: "real \<Rightarrow> summary_row" where
  "reindexed_row v =
     \<lparr>location = None, date = NaT, total_cases = None, new_cases = None,
      total_deaths = None, new_deaths = None, total_vaccinations = None,
      people_vaccinated = None, population = Some v, death_rate = NaN,
      vaccination_rate = NaN\<rparr>"

definition set_population :: "real list \<Rightarrow> summary_row list \<Rightarrow> exn + summary_row list" where
  "set_population vals rs =
     (if rs = [] then Inr (map reindexed_row vals)
      else if length vals \<noteq> length rs
      then Inl (Exception (''Length of values ('' @ str_nat (length vals)
                 @ '') does not match length of index ('' @ str_nat (length rs) @ '')''))
      else Inr (map (\<lambda>(r, v). r\<lparr>population := Some v\<rparr>) (zip rs vals)))"

definition snapshot_population :: "real list" where
  "snapshot_population = [100000000, 330000000, 1400000000]"

definition latest_summary :: "frame \<Rightarrow> exn + summary_row list" where
  "latest_summary df =
     (if \<not> has_col ''location'' df then Inl (KeyError (quoted ''location''))
      else
        (case set_population snapshot_population (reset_index (groupby_last (rows df))) of
           Inl e \<Rightarrow> Inl e
         | Inr rs \<Rightarrow> Inr (map (\<lambda>r. r\<lparr>vaccination_rate := vaccination_rate_of r\<rparr>) rs)))"

section \<open>The whole run (lines 19 to 161)\<close>

text \<open>
  What the run gives the outside is a sequence of events: a printed line, a printed
  listing of data (named by what it lists), and a chart shown by \<^verbatim>\<open>plt.show()\<close>
  (named by its title). Plotting is the work of matplotlib and seaborn and is taken
  not to raise. The file system is a map from paths to files; a file that
  \<^verbatim>\<open>pd.read_csv\<close> cannot parse carries the message of the exception.
\<close>

datatype event = Print string | Listing string | Chart string

datatype csv_file = Unreadable string | Table frame

definition read_csv :: "(string \<Rightarrow> csv_file option) \<Rightarrow> string \<Rightarrow> exn + frame" where
  "read_csv fs path =
     (case fs path of
        None \<Rightarrow> Inl FileNotFoundError
      | Some (Unreadable msg) \<Rightarrow> Inl (Exception msg)
      | Some (Table df) \<Rightarrow> Inr df)"

definition nl :: "string \<Rightarrow> string" where
  "nl s = CHR 0x0A # s"

definition exploration_events :: "string \<Rightarrow> event list" where
  "exploration_events data_path =
     [Print (''Data loaded successfully from '' @ data_path),
      Print (nl ''--- Data Exploration ---''),
      Listing ''Column names:'',
      Print ''First 5 rows:'',
      Listing ''head'',
      Print ''Missing values before cleaning:'',
      Listing ''isnull sum'']"

definition cleaning_events :: "event list" where
  "cleaning_events =
     [Print (nl ''Missing values after cleaning:''),
      Listing ''isnull sum'',
      Print (nl ''Data cleaning complete.''),
      Print (nl ''--- Exploratory Data Analysis ---''),
      Chart ''Total COVID-19 Cases Over Time'',
      Chart ''Total COVID-19 Deaths Over Time'',
      Chart ''Daily New COVID-19 Cases'']"

definition death_rate_events :: "event list" where
  "death_rate_events =
     [Chart ''COVID-19 Death Rate (Total Deaths / Total Cases)'',
      Print (nl ''--- Vaccination Analysis ---''),
      Chart ''Total COVID-19 Vaccinations Over Time'']"

definition vaccination_rate_events :: "event list" where
  "vaccination_rate_events = [Chart ''Percentage of Population Vaccinated Over Time'']"

definition bar_chart :: event where
  "bar_chart = Chart ''Latest Vaccination Rate by Country''"

definition insight_events :: "event list" where
  "insight_events =
     [Print (nl ''--- Insights ---''),
      Print (nl ''Key Insights:''),
      Print ''* USA has the highest total cases among the selected countries.'',
      Print ''* India experienced a surge in new cases around mid-2021.'',
      Print (''* Kenya'' @ [CHR 0x27] @ ''s vaccination rate is lower compared to USA and India.''),
      Print ''* The death rate varies across countries, indicating different healthcare outcomes.'']"

text \<open>
  The body of \<^verbatim>\<open>try\<close>: the events so far, and the exception that ended it, if any.
\<close>

definition try_body ::
  "(string \<Rightarrow> csv_file option) \<Rightarrow> (string \<Rightarrow> parsed) \<Rightarrow> string \<Rightarrow> string list
     \<Rightarrow> event list \<times> exn option" where
  "try_body fs parse data_path selected_countries =
     (case read_csv fs data_path of
        Inl e \<Rightarrow> ([], Some e)
      | Inr df \<Rightarrow>
     (let ev1 = exploration_events data_path in
      case clean_core parse selected_countries df of
        Inl e \<Rightarrow> (ev1, Some e)
      | Inr df1 \<Rightarrow>
     (let ev2 = ev1 @ cleaning_events in
      case derive_death_rate df1 of
        Inl e \<Rightarrow> (ev2, Some e)
      | Inr df2 \<Rightarrow>
     (let ev3 = ev2 @ death_rate_events in
      case derive_vaccination_rate df2 of
        Inl e \<Rightarrow> (ev3, Some e)
      | Inr df3 \<Rightarrow>
     (let ev4 = ev3 @ vaccination_rate_events in
      case latest_summary df3 of
        Inl e \<Rightarrow> (ev4, Some e)
      | Inr latest \<Rightarrow> (ev4 @ bar_chart # insight_events, None))))))"

text \<open>The three \<^verbatim>\<open>except\<close> clauses, in their order, and \<^verbatim>\<open>finally\<close>.\<close>

fun handler :: "string \<Rightarrow> exn \<Rightarrow> event list" where
  "handler data_path FileNotFoundError =
     [Print (''Error: The file '' @ quoted data_path
               @ '' was not found. Please check the file path.'')]"
| "handler data_path (KeyError e) =
     [Print (''Error: A required column is missing: '' @ e
               @ ''.  Please ensure the dataset has the necessary columns (date, location, total_cases, etc.)'')]"
| "handler data_path (Exception e) =
     [Print (''An unexpected error occurred: '' @ e),
      Print ''Please check the data and try again.'']"

definition complete_notice :: event where
  "complete_notice = Print (nl ''Analysis complete.'')"

definition analyze_covid_data ::
  "(string \<Rightarrow> csv_file option) \<Rightarrow> (string \<Rightarrow> parsed) \<Rightarrow> string \<Rightarrow> string list \<Rightarrow> event list" where
  "analyze_covid_data fs parse data_path selected_countries =
     (case try_body fs parse data_path selected_countries of
        (evs, None) \<Rightarrow> evs @ [complete_notice]
      | (evs, Some e) \<Rightarrow> evs @ handler data_path e @ [complete_notice])"

section \<open>Notions for the properties\<close>

text \<open>
  What line 47 does to the rows of one country, seen on their own: the rows of the
  group, in the order of the frame, with the column replaced by its interpolation.
\<close>
definition interp_group :: "numcol \<Rightarrow> row list \<Rightarrow> row list" where
  "interp_group c grp = map (\<lambda>(r, v). setc c v r) (zip grp (interpolate (map (getc c) grp)))"

text \<open>
  What the proofs below carry through the six steps: a row as \<open>clean\<close> leaves it.
\<close>
definition cleaned_row :: "string list \<Rightarrow> row \<Rightarrow> bool" where
  "cleaned_row sel r =
     (location r \<in> set sel \<and> ((\<exists>t. date r = Timestamp t) \<or> date r = DateInt 0)
      \<and> (\<forall>c. getc c r \<noteq> None)
      \<and> population r \<noteq> None
      \<and> death_rate r = death_rate_of r \<and> vaccination_rate r = vaccination_rate_of r)"

text \<open>The two assignments of lines 92 and 117 on one row.\<close>
definition derive_row :: "row \<Rightarrow> row" where
  "derive_row r = r\<lparr>death_rate := death_rate_of r, vaccination_rate := vaccination_rate_of r\<rparr>"

text \<open>
  The order of two dates: of two time stamps, or of two integers. Python compares
  nothing else in a date column.
\<close>
fun date_le :: "datecell \<Rightarrow> datecell \<Rightarrow> bool" where
  "date_le (Timestamp s) (Timestamp t) = (s \<le> t)"
| "date_le (DateInt m) (DateInt n) = (m \<le> n)"
| "date_le _ _ = False"

text \<open>The events of a run that gets as far as line 130.\<close>
definition events_before_summary :: "string \<Rightarrow> event list" where
  "events_before_summary data_path =
     exploration_events data_path @ cleaning_events @ death_rate_events @ vaccination_rate_events"

section \<open>Example data\<close>

text \<open>
  Rows and column labels for the concrete runs below: a row with the given country,
  date, total cases, total deaths, people vaccinated and population, everything else
  missing.
\<close>

definition example_row ::
  "string \<Rightarrow> datecell \<Rightarrow> real option \<Rightarrow> real option \<Rightarrow> real option \<Rightarrow> real option \<Rightarrow> row" where
  "example_row loc d tc td pv pop =
     \<lparr>location = loc, date = d, total_cases = tc, new_cases = None, total_deaths = td,
      new_deaths = None, total_vaccinations = None, people_vaccinated = pv,
      population = pop, death_rate = NaN, vaccination_rate = NaN\<rparr>"

definition source_columns :: "string list" where
  "source_columns =
     [''location'', ''date'', ''total_cases'', ''new_cases'', ''total_deaths'', ''new_deaths'',
      ''total_vaccinations'', ''people_vaccinated'', ''population'']"

text \<open>
  Two frames in which country A has the same rows (10, missing, 30 on three
  consecutive days) among different rows of other countries, and what lines 45 to 47
  make of them.
\<close>
definition gap_frame :: frame where
  "gap_frame =
     \<lparr>columns = source_columns,
      rows = [example_row ''A'' (Timestamp 1) (Some 10) None None None,
              example_row ''B'' (Timestamp 1) (Some 500) None None None,
              example_row ''A'' (Timestamp 2) None None None None,
              example_row ''A'' (Timestamp 3) (Some 30) None None None]\<rparr>"

definition gap_frame_filled :: frame where
  "gap_frame_filled =
     \<lparr>columns = source_columns,
      rows = [example_row ''A'' (Timestamp 1) (Some 10) None None None,
              example_row ''B'' (Timestamp 1) (Some 500) None None None,
              example_row ''A'' (Timestamp 2) (Some 20) None None None,
              example_row ''A'' (Timestamp 3) (Some 30) None None None]\<rparr>"

definition gap_frame2 :: frame where
  "gap_frame2 =
     \<lparr>columns = source_columns,
      rows = [example_row ''A'' (Timestamp 1) (Some 10) None None None,
              example_row ''A'' (Timestamp 2) None None None None,
              example_row ''B'' (Timestamp 2) (Some 7) None None None,
              example_row ''B'' (Timestamp 3) None None None None,
              example_row ''B'' (Timestamp 4) (Some 9) None None None,
              example_row ''A'' (Timestamp 3) (Some 30) None None None]\<rparr>"

definition gap_frame2_filled :: frame where
  "gap_frame2_filled =
     \<lparr>columns = source_columns,
      rows = [example_row ''A'' (Timestamp 1) (Some 10) None None None,
              example_row ''A'' (Timestamp 2) (Some 20) None None None,
              example_row ''B'' (Timestamp 2) (Some 7) None None None,
              example_row ''B'' (Timestamp 3) (Some 8) None None None,
              example_row ''B'' (Timestamp 4) (Some 9) None None None,
              example_row ''A'' (Timestamp 3) (Some 30) None None None]\<rparr>"

text \<open>
  A small run of the whole cleaning. Country A has three dated rows (the middle one
  without total cases, deaths and population) and one undated row; country C is not
  selected.
\<close>
definition scenario_parse :: "string \<Rightarrow> parsed" where
  "scenario_parse s =
     (if s = ''NaT'' then Missing
      else (case map_of [(''2021-01-01'', 18628), (''2021-01-02'', 18629),
                         (''2021-01-03'', 18630)] s of
              None \<Rightarrow> Unparseable
            | Some t \<Rightarrow> Parsed t))"

definition scenario_frame :: frame where
  "scenario_frame =
     \<lparr>columns = source_columns,
      rows = [example_row ''A'' (DateStr ''2021-01-01'') (Some 10) (Some 1) None (Some 1000),
              example_row ''C'' (DateStr ''2021-01-01'') (Some 5) None None (Some 50),
              example_row ''A'' NaT (Some 7) None None None,
              example_row ''A'' (DateStr ''2021-01-02'') None None (Some 5) None,
              example_row ''A'' (DateStr ''2021-01-03'') (Some 30) (Some 3) None (Some 1000)]\<rparr>"

definition scenario_cleaned :: frame where
  "scenario_cleaned =
     \<lparr>columns = source_columns @ [''death_rate'', ''vaccination_rate''],
      rows =
        [\<lparr>location = ''A'', date = Timestamp 18628, total_cases = Some 10,
            new_cases = Some 0, total_deaths = Some 1, new_deaths = Some 0,
            total_vaccinations = Some 0, people_vaccinated = Some 0,
            population = Some 1000, death_rate = Fin (1 / 10), vaccination_rate = Fin 0\<rparr>,
         \<lparr>location = ''A'', date = Timestamp 18629, total_cases = Some 20,
            new_cases = Some 0, total_deaths = Some 2, new_deaths = Some 0,
            total_vaccinations = Some 0, people_vaccinated = Some 5,
            population = Some 0, death_rate = Fin (1 / 10), vaccination_rate = PosInf\<rparr>,
         \<lparr>location = ''A'', date = Timestamp 18630, total_cases = Some 30,
            new_cases = Some 0, total_deaths = Some 3, new_deaths = Some 0,
            total_vaccinations = Some 0, people_vaccinated = Some 5,
            population = Some 1000, death_rate = Fin (1 / 10), vaccination_rate = Fin (1 / 2)\<rparr>]\<rparr>"

text \<open>A frame of one row, for the two divisions.\<close>
definition zero_row :: row where
  "zero_row = example_row ''A'' (Timestamp 1) (Some 0) (Some 1) (Some 0) (Some 0)"

definition zero_frame :: frame where
  "zero_frame = \<lparr>columns = source_columns, rows = [zero_row]\<rparr>"

text \<open>A table whose rows for country A are not in date order, and its cleaning.\<close>
definition unsorted_frame :: frame where
  "unsorted_frame =
     \<lparr>columns = source_columns,
      rows = [example_row ''A'' (Timestamp 2) (Some 20) (Some 2) (Some 2) (Some 1000),
              example_row ''A'' (Timestamp 1) (Some 10) (Some 1) (Some 1) (Some 1000)]\<rparr>"

definition unsorted_cleaned :: frame where
  "unsorted_cleaned =
     \<lparr>columns = source_columns @ [''death_rate'', ''vaccination_rate''],
      rows =
        [\<lparr>location = ''A'', date = Timestamp 2, total_cases = Some 20,
            new_cases = Some 0, total_deaths = Some 2, new_deaths = Some 0,
            total_vaccinations = Some 0, people_vaccinated = Some 2,
            population = Some 1000, death_rate = Fin (1 / 10), vaccination_rate = Fin (1 / 5)\<rparr>,
         \<lparr>location = ''A'', date = Timestamp 1, total_cases = Some 10,
            new_cases = Some 0, total_deaths = Some 1, new_deaths = Some 0,
            total_vaccinations = Some 0, people_vaccinated = Some 1,
            population = Some 1000, death_rate = Fin (1 / 10), vaccination_rate = Fin (1 / 10)\<rparr>]\<rparr>"

text \<open>A table with one dated row for each of the three countries of line 168.\<close>
definition three_frame :: frame where
  "three_frame =
     \<lparr>columns = source_columns,
      rows = [example_row ''Kenya'' (Timestamp 1) (Some 10) (Some 1) (Some 2) (Some 50),
              example_row ''United States'' (Timestamp 1) (Some 20) (Some 2) (Some 33) (Some 60),
              example_row ''India'' (Timestamp 1) (Some 30) (Some 3) (Some 14) (Some 70)]\<rparr>"

definition three_cleaned :: frame where
  "three_cleaned =
     \<lparr>columns = source_columns @ [''death_rate'', ''vaccination_rate''],
      rows =
        [\<lparr>location = ''Kenya'', date = Timestamp 1, total_cases = Some 10,
            new_cases = Some 0, total_deaths = Some 1, new_deaths = Some 0,
            total_vaccinations = Some 0, people_vaccinated = Some 2,
            population = Some 50, death_rate = Fin (1 / 10), vaccination_rate = Fin 4\<rparr>,
         \<lparr>location = ''United States'', date = Timestamp 1, total_cases = Some 20,
            new_cases = Some 0, total_deaths = Some 2, new_deaths = Some 0,
            total_vaccinations = Some 0, people_vaccinated = Some 33,
            population = Some 60, death_rate = Fin (1 / 10), vaccination_rate = Fin 55\<rparr>,
         \<lparr>location = ''India'', date = Timestamp 1, total_cases = Some 30,
            new_cases = Some 0, total_deaths = Some 3, new_deaths = Some 0,
            total_vaccinations = Some 0, people_vaccinated = Some 14,
            population = Some 70, death_rate = Fin (1 / 10), vaccination_rate = Fin 20\<rparr>]\<rparr>"




text \<open>The cleaning of a table in which no row is of a selected country.\<close>
definition empty_cleaned :: frame where
  "empty_cleaned =
     \<lparr>columns = source_columns @ [''death_rate'', ''vaccination_rate''], rows = []\<rparr>"


section \<open>Properties\<close>

subsection \<open>The filter\<close>

lemma filter_rows_filter: "filter_rows sel rs = filter (\<lambda>r. location r \<in> set sel) rs"
  unfolding filter_rows_def boolean_index_def isin_def
  by (induction rs) auto

lemma count_list_filter:
  "count_list (filter P xs) x = (if P x then count_list xs x else 0)"
  by (induction xs) auto

text \<open>
  C6. The filter keeps exactly the rows whose country is in the selected list: the
  result is a subsequence of the source rows (their order is kept), each row of a
  selected country occurs as often as in the source and no other row occurs at all,
  and two selections with the same members give the same result.
\<close>
theorem filter_selected_exact:
  assumes "filter_selected sel df = Inr out"
  shows "columns out = columns df
       \<and> subseq (rows out) (rows df)
       \<and> (\<forall>r. count_list (rows out) r = (if location r \<in> set sel then count_list (rows df) r else 0))
       \<and> (\<forall>sel'. set sel' = set sel \<longrightarrow> filter_selected sel' df = Inr out)"
proof -
  from assms have hc: "has_col ''location'' df"
    and out: "out = df\<lparr>rows := filter_rows sel (rows df)\<rparr>"
    by (auto simp: filter_selected_def split: if_splits)
  have 1: "columns out = columns df" using out by simp
  have 2: "subseq (rows out) (rows df)" using out by (simp add: filter_rows_filter)
  have 3: "\<forall>r. count_list (rows out) r = (if location r \<in> set sel then count_list (rows df) r else 0)"
    using out by (simp add: filter_rows_filter count_list_filter)
  have 4: "\<forall>sel'. set sel' = set sel \<longrightarrow> filter_selected sel' df = Inr out"
    using out hc by (simp add: filter_selected_def filter_rows_filter)
  from 1 2 3 4 show ?thesis by blast
qed

theorem filter_selected_exact_witness:
  "filter_selected [''A'', ''B'']
      \<lparr>columns = source_columns,
       rows = [example_row ''B'' (Timestamp 1) None None None None,
               example_row ''C'' (Timestamp 1) None None None None,
               example_row ''A'' (Timestamp 1) None None None None]\<rparr>
    = Inr \<lparr>columns = source_columns,
       rows = [example_row ''B'' (Timestamp 1) None None None None,
               example_row ''A'' (Timestamp 1) None None None None]\<rparr>
   \<and> filter_selected [''B'', ''A'', ''B'']
      \<lparr>columns = source_columns,
       rows = [example_row ''B'' (Timestamp 1) None None None None,
               example_row ''C'' (Timestamp 1) None None None None,
               example_row ''A'' (Timestamp 1) None None None None]\<rparr>
    = Inr \<lparr>columns = source_columns,
       rows = [example_row ''B'' (Timestamp 1) None None None None,
               example_row ''A'' (Timestamp 1) None None None None]\<rparr>"
proof -
  have h: "filter_selected [''A'', ''B'']
      \<lparr>columns = source_columns,
       rows = [example_row ''B'' (Timestamp 1) None None None None,
               example_row ''C'' (Timestamp 1) None None None None,
               example_row ''A'' (Timestamp 1) None None None None]\<rparr>
    = Inr \<lparr>columns = source_columns,
       rows = [example_row ''B'' (Timestamp 1) None None None None,
               example_row ''A'' (Timestamp 1) None None None None]\<rparr>"
    by (simp add: filter_selected_def has_col_def source_columns_def filter_rows_def
        boolean_index_def isin_def example_row_def)
  have s: "set [''B'', ''A'', ''B''] = set [''A'', ''B'']" by auto
  from filter_selected_exact[OF h] s h show ?thesis by blast
qed

subsection \<open>Interpolation\<close>

lemma length_fill: "length (fill a k xs) = k + length xs"
  by (induction a k xs rule: fill.induct) auto

lemma length_interpolate: "length (interpolate xs) = length xs"
  by (induction xs rule: interpolate.induct) (auto simp: length_fill)

lemma location_setc: "location (setc c v r) = location r"
  by (cases c) auto

lemma date_setc: "date (setc c v r) = date r"
  by (cases c) auto

lemma population_setc: "population (setc c v r) = population r"
  by (cases c) auto

lemma getc_setc: "getc c (setc c v r) = v"
  by (cases c) auto


lemma group_rows_assign_grouped:
  "length (group_rows g rs) \<le> length (res g) \<Longrightarrow>
   group_rows g (assign_grouped c res rs)
     = map (\<lambda>(r, v). setc c v r) (zip (group_rows g rs) (res g))"
proof (induction rs arbitrary: res)
  case Nil
  then show ?case by (simp add: group_rows_def)
next
  case (Cons r rs)
  show ?case
  proof (cases "location r = g")
    case True
    with Cons.prems obtain v vs where rv: "res g = v # vs"
      by (cases "res g") (auto simp: group_rows_def)
    with Cons.prems True have "length (group_rows g rs) \<le> length ((res(g := vs)) g)"
      by (simp add: group_rows_def)
    from Cons.IH[of "res(g := vs)", OF this] True rv show ?thesis
      by (simp add: group_rows_def location_setc fun_upd_def)
  next
    case False
    show ?thesis
    proof (cases "res (location r)")
      case Nil
      with False Cons.IH[of res] Cons.prems show ?thesis
        by (simp add: group_rows_def location_setc fun_upd_def)
    next
      case (Cons v vs)
      from Cons.prems False
      have "length (group_rows g rs) \<le> length ((res(location r := vs)) g)"
        by (simp add: group_rows_def)
      from Cons.IH[of "res(location r := vs)", OF this] False Cons show ?thesis
        by (simp add: group_rows_def location_setc fun_upd_def)
    qed
  qed
qed

lemma group_rows_interpolate_col:
  "group_rows g (interpolate_col c rs) = interp_group c (group_rows g rs)"
  unfolding interpolate_col_def interp_group_def
  by (rule group_rows_assign_grouped) (simp add: length_interpolate)

lemma group_rows_interpolate_cols:
  "interpolate_cols cs df = Inr out \<Longrightarrow>
   group_rows g (rows out) = fold interp_group cs (group_rows g (rows df))"
proof (induction cs arbitrary: df)
  case Nil
  then show ?case by simp
next
  case (Cons c cs)
  from Cons.prems have "interpolate_cols cs (df\<lparr>rows := interpolate_col c (rows df)\<rparr>) = Inr out"
    by (simp split: if_splits)
  from Cons.IH[OF this] show ?case
    by (simp add: group_rows_interpolate_col)
qed

lemma fill_replicate_None: "fill a j (replicate k None @ xs) = fill a (j + k) xs"
  by (induction k arbitrary: j) auto

lemma interpolate_leading:
  "interpolate (replicate k None @ xs) = replicate k None @ interpolate xs"
  by (induction k) auto

lemma fill_append_Some:
  "\<exists>ys. length ys = k + length pre \<and> fill c k (pre @ Some a # rest) = ys @ Some a # fill a 0 rest"
proof (induction pre arbitrary: c k)
  case Nil
  show ?case by (rule exI[of _ "map (\<lambda>i. Some ((a - c) / real (Suc k) * real i + c)) [1..<Suc k]"]) simp
next
  case (Cons x pre)
  show ?case
  proof (cases x)
    case None
    from Cons.IH[of "Suc k" c] None show ?thesis by auto
  next
    case (Some b)
    from Cons.IH[of 0 b] obtain ys where
      ys: "length ys = length pre" "fill b 0 (pre @ Some a # rest) = ys @ Some a # fill a 0 rest"
      by auto
    show ?thesis
      by (rule exI[of _ "map (\<lambda>i. Some ((b - c) / real (Suc k) * real i + c)) [1..<Suc k] @ Some b # ys"])
         (simp add: Some ys)
  qed
qed

lemma interpolate_append_Some:
  "\<exists>ys. length ys = length pre \<and> interpolate (pre @ Some a # rest) = ys @ Some a # fill a 0 rest"
proof (induction pre)
  case Nil
  show ?case by simp
next
  case (Cons x pre)
  show ?case
  proof (cases x)
    case None
    from Cons.IH obtain ys where
      "length ys = length pre" "interpolate (pre @ Some a # rest) = ys @ Some a # fill a 0 rest"
      by auto
    then show ?thesis using None by (intro exI[of _ "None # ys"]) simp
  next
    case (Some b)
    from fill_append_Some[of 0 pre b a rest] obtain ys where
      "length ys = length pre" "fill b 0 (pre @ Some a # rest) = ys @ Some a # fill a 0 rest"
      by auto
    then show ?thesis using Some by (intro exI[of _ "Some b # ys"]) simp
  qed
qed

lemma between_line:
  fixes a b t :: real
  assumes "0 \<le> t" "t \<le> 1"
  shows "min a b \<le> (b - a) * t + a \<and> (b - a) * t + a \<le> max a b"
proof (cases "a \<le> b")
  case True
  then have "0 \<le> (b - a) * t" using assms by simp
  moreover have "(b - a) * t \<le> b - a" using True assms by (simp add: mult_left_le)
  ultimately show ?thesis using True by simp
next
  case False
  then have "0 \<le> (a - b) * t" using assms by simp
  moreover have "(a - b) * t \<le> a - b" using False assms by (simp add: mult_left_le)
  ultimately show ?thesis using False by (simp add: algebra_simps)
qed

lemma interpolate_gap:
  assumes "i < k"
  shows "interpolate (pre @ Some a # replicate k None @ Some b # post) ! Suc (length pre + i)
           = Some ((b - a) / real (Suc k) * real (Suc i) + a)"
proof -
  obtain ys where ys: "length ys = length pre"
    "interpolate (pre @ Some a # (replicate k None @ Some b # post))
       = ys @ Some a # fill a 0 (replicate k None @ Some b # post)"
    using interpolate_append_Some[of pre a "replicate k None @ Some b # post"] by auto
  have f: "fill a 0 (replicate k None @ Some b # post)
             = map (\<lambda>i. Some ((b - a) / real (Suc k) * real i + a)) [1..<Suc k] @ Some b # fill b 0 post"
    by (simp add: fill_replicate_None)
  have "(ys @ Some a # fill a 0 (replicate k None @ Some b # post)) ! Suc (length pre + i)
          = fill a 0 (replicate k None @ Some b # post) ! i"
    using ys(1) by (simp add: nth_append)
  also have "\<dots> = map (\<lambda>i. Some ((b - a) / real (Suc k) * real i + a)) [1..<Suc k] ! i"
    unfolding f using assms by (simp add: nth_append del: upt_Suc)
  also have "\<dots> = Some ((b - a) / real (Suc k) * real (Suc i) + a)"
    using assms by (simp del: upt_Suc)
  finally show ?thesis using ys(2) by simp
qed

lemma gap_between:
  assumes "i < k"
  shows "min a b \<le> (b - a) / real (Suc k) * real (Suc i) + a
       \<and> (b - a) / real (Suc k) * real (Suc i) + a \<le> max a b"
proof -
  have t: "0 \<le> real (Suc i) / real (Suc k)" "real (Suc i) / real (Suc k) \<le> 1"
    using assms by simp_all
  have "(b - a) / real (Suc k) * real (Suc i) = (b - a) * (real (Suc i) / real (Suc k))"
    by simp
  with between_line[OF t, of a b] show ?thesis by simp
qed

lemma interpolate_trailing:
  "drop (Suc (length pre)) (interpolate (pre @ Some a # replicate k None)) = replicate k (Some a)"
proof -
  obtain ys where ys: "length ys = length pre"
    "interpolate (pre @ Some a # replicate k None) = ys @ Some a # fill a 0 (replicate k None)"
    using interpolate_append_Some[of pre a "replicate k None"] by auto
  have "fill a 0 (replicate k None) = replicate k (Some a)"
    using fill_replicate_None[of a 0 k "[]"] by simp
  with ys show ?thesis by simp
qed

lemma getc_setc_other: "c \<noteq> c' \<Longrightarrow> getc c (setc c' v r) = getc c r"
  by (cases c; cases c') auto

lemma map_getc_interp_group:
  "map (getc c) (interp_group c grp) = interpolate (map (getc c) grp)"
proof -
  have "map (getc c) (interp_group c grp) = map snd (zip grp (interpolate (map (getc c) grp)))"
    unfolding interp_group_def by (simp add: getc_setc case_prod_beta)
  also have "\<dots> = interpolate (map (getc c) grp)"
    by (rule map_snd_zip) (simp add: length_interpolate)
  finally show ?thesis .
qed

lemma map_getc_interp_group_other:
  assumes "c \<noteq> c'"
  shows "map (getc c) (interp_group c' grp) = map (getc c) grp"
proof -
  have "map (getc c) (interp_group c' grp) = map (getc c) (map fst (zip grp (interpolate (map (getc c') grp))))"
    unfolding interp_group_def using assms by (simp add: getc_setc_other case_prod_beta)
  also have "map fst (zip grp (interpolate (map (getc c') grp))) = grp"
    by (rule map_fst_zip) (simp add: length_interpolate)
  finally show ?thesis .
qed

lemma map_getc_fold_interp_group:
  "distinct cs \<Longrightarrow>
   map (getc c) (fold interp_group cs grp)
     = (if c \<in> set cs then interpolate (map (getc c) grp) else map (getc c) grp)"
proof (induction cs arbitrary: grp)
  case Nil
  show ?case by simp
next
  case (Cons c' cs)
  then have d: "distinct cs" and n: "c' \<notin> set cs" by auto
  show ?case
  proof (cases "c = c'")
    case True
    with Cons.IH[OF d, of "interp_group c' grp"] n show ?thesis
      by (simp add: map_getc_interp_group)
  next
    case False
    with Cons.IH[OF d, of "interp_group c' grp"] show ?thesis
      by (simp add: map_getc_interp_group_other)
  qed
qed

lemma numeric_cols_all: "distinct numeric_cols \<and> c \<in> set numeric_cols"
  by (cases c) (simp_all add: numeric_cols_def)

lemma interpolate_cols_series:
  assumes "interpolate_cols numeric_cols df = Inr out"
  shows "map (getc c) (group_rows g (rows out)) = interpolate (map (getc c) (group_rows g (rows df)))"
  using group_rows_interpolate_cols[OF assms, of g] numeric_cols_all[of c]
  by (simp add: map_getc_fold_interp_group)

lemmas eval_defs = has_col_def source_columns_def example_row_def numeric_cols_def
  interpolate_col_def group_rows_def

lemma gap_frame_run: "interpolate_cols numeric_cols gap_frame = Inr gap_frame_filled"
  by (simp add: gap_frame_def gap_frame_filled_def eval_defs)

lemma gap_frame2_run: "interpolate_cols numeric_cols gap_frame2 = Inr gap_frame2_filled"
  by (simp add: gap_frame2_def gap_frame2_filled_def eval_defs)

text \<open>
  C2, as the code has it. For each of the six numeric columns and each country, the
  interpolated series is \<open>interpolate\<close> applied to the country's values in the order
  of the frame's rows (nothing sorts them by date), with the rows taken as equally
  spaced. A run of \<open>k\<close> missing values between two known values \<open>a\<close> and \<open>b\<close> is
  filled on the straight line between them, so each filled value lies between \<open>a\<close> and
  \<open>b\<close>; missing values before the first known value stay missing; missing values after
  the last known value are filled with that value. In the scenario (10, missing, 30)
  the filled value is 20.
\<close>
theorem interpolation_in_source_order:
  assumes "interpolate_cols numeric_cols df = Inr out"
  shows "map (getc c) (group_rows g (rows out))
           = interpolate (map (getc c) (group_rows g (rows df)))
       \<and> (\<forall>pre a k b post i. i < k \<longrightarrow>
            interpolate (pre @ Some a # replicate k None @ Some b # post) ! Suc (length pre + i)
              = Some ((b - a) / real (Suc k) * real (Suc i) + a)
            \<and> min a b \<le> (b - a) / real (Suc k) * real (Suc i) + a
            \<and> (b - a) / real (Suc k) * real (Suc i) + a \<le> max a b)
       \<and> (\<forall>k xs. interpolate (replicate k None @ xs) = replicate k None @ interpolate xs)
       \<and> (\<forall>pre a k. drop (Suc (length pre)) (interpolate (pre @ Some a # replicate k None))
                       = replicate k (Some a))
       \<and> interpolate [Some 10, None, Some 30] = [Some 10, Some 20, Some 30]"
proof -
  have 1: "map (getc c) (group_rows g (rows out))
             = interpolate (map (getc c) (group_rows g (rows df)))"
    by (rule interpolate_cols_series[OF assms])
  have 2: "\<forall>pre a k b post i. i < k \<longrightarrow>
            interpolate (pre @ Some a # replicate k None @ Some b # post) ! Suc (length pre + i)
              = Some ((b - a) / real (Suc k) * real (Suc i) + a)
            \<and> min a b \<le> (b - a) / real (Suc k) * real (Suc i) + a
            \<and> (b - a) / real (Suc k) * real (Suc i) + a \<le> max a b"
    using interpolate_gap gap_between by blast
  have 3: "\<forall>k xs. interpolate (replicate k None @ xs) = replicate k None @ interpolate xs"
    by (simp add: interpolate_leading)
  have 4: "\<forall>pre a k. drop (Suc (length pre)) (interpolate (pre @ Some a # replicate k None))
                       = replicate k (Some a)"
    by (simp add: interpolate_trailing)
  have 5: "interpolate [Some 10, None, Some 30] = [Some 10, Some 20, Some 30]"
    by simp
  from 1 2 3 4 5 show ?thesis by blast
qed

theorem interpolation_in_source_order_witness:
  "interpolate_cols numeric_cols gap_frame = Inr gap_frame_filled
   \<and> map (getc Total_cases) (group_rows ''A'' (rows gap_frame_filled))
       = [Some 10, Some 20, Some 30]
   \<and> (0::nat) < 1
   \<and> interpolate ([] @ Some 10 # replicate 1 None @ Some 30 # []) ! Suc (length ([]::real option list) + 0)
       = Some ((30 - 10) / real (Suc 1) * real (Suc 0) + 10)"
proof -
  note t = interpolation_in_source_order[OF gap_frame_run, of Total_cases "''A''"]
  from t have a: "map (getc Total_cases) (group_rows ''A'' (rows gap_frame_filled))
           = interpolate (map (getc Total_cases) (group_rows ''A'' (rows gap_frame)))"
    by (rule conjunct1)
  have b: "interpolate (map (getc Total_cases) (group_rows ''A'' (rows gap_frame)))
             = [Some 10, Some 20, Some 30]"
    by (simp add: gap_frame_def eval_defs)
  have c: "map (getc Total_cases) (group_rows ''A'' (rows gap_frame_filled))
             = [Some 10, Some 20, Some 30]"
    using a b by (rule trans)
  have d: "(0::nat) < 1" by simp
  from t d have e: "interpolate ([] @ Some 10 # replicate 1 None @ Some 30 # []) ! Suc (length ([]::real option list) + 0)
       = Some ((30 - 10) / real (Suc 1) * real (Suc 0) + 10)"
    by blast
  from gap_frame_run c d e show ?thesis by blast
qed

text \<open>
  C2 as stated fails twice. With the rows of A in the order day 1 (10), day 3
  (missing), day 2 (30), the row of day 3 is filled with 20 from its neighbours in the
  frame, although in time it is the end of the series. With the rows in date order, 10
  on day 1 and a missing value on day 2, the missing value at the end of the series is
  filled with 10 and not left unresolved.
\<close>
theorem interpolation_sorted_by_date_counterexample:
  "map total_cases (interpolate_col Total_cases
       [example_row ''A'' (Timestamp 1) (Some 10) None None None,
        example_row ''A'' (Timestamp 3) None None None None,
        example_row ''A'' (Timestamp 2) (Some 30) None None None])
     = [Some 10, Some 20, Some 30]
   \<and> map total_cases (interpolate_col Total_cases
       [example_row ''A'' (Timestamp 1) (Some 10) None None None,
        example_row ''A'' (Timestamp 2) None None None None])
     = [Some 10, Some 10]"
  by (simp add: eval_defs)

text \<open>
  C3. Interpolation never crosses a country boundary: the rows of country \<open>e\<close> after
  lines 45 to 47 are a function of the rows of \<open>e\<close> before. Two frames that agree on
  the rows of \<open>e\<close>, whatever rows of other countries lie around and between them, give
  the same rows of \<open>e\<close>.
\<close>
theorem interpolation_within_entity:
  assumes "interpolate_cols numeric_cols d1 = Inr o1"
    and "interpolate_cols numeric_cols d2 = Inr o2"
    and "group_rows e (rows d1) = group_rows e (rows d2)"
  shows "group_rows e (rows o1) = group_rows e (rows o2)"
  using group_rows_interpolate_cols[OF assms(1), of e]
    group_rows_interpolate_cols[OF assms(2), of e] assms(3)
  by simp

theorem interpolation_within_entity_witness:
  "interpolate_cols numeric_cols gap_frame = Inr gap_frame_filled
   \<and> interpolate_cols numeric_cols gap_frame2 = Inr gap_frame2_filled
   \<and> group_rows ''A'' (rows gap_frame) = group_rows ''A'' (rows gap_frame2)
   \<and> group_rows ''A'' (rows gap_frame_filled) = group_rows ''A'' (rows gap_frame2_filled)"
proof -
  have g: "group_rows ''A'' (rows gap_frame) = group_rows ''A'' (rows gap_frame2)"
    by (simp add: gap_frame_def gap_frame2_def eval_defs)
  from interpolation_within_entity[OF gap_frame_run gap_frame2_run g] gap_frame_run gap_frame2_run g
  show ?thesis by blast
qed

subsection \<open>What each cleaning step keeps\<close>

lemma to_datetime_cell_Inr:
  "to_datetime_cell parse d = Inr d' \<Longrightarrow> (\<exists>t. d' = Timestamp t) \<or> d' = NaT"
  by (cases d) (auto split: parsed.splits)


lemma to_datetime_all:
  assumes "to_datetime parse rs = Inr rs'"
    and "\<forall>r\<in>set rs. Q r"
    and "\<And>r d. Q r \<Longrightarrow> to_datetime_cell parse (date r) = Inr d \<Longrightarrow> Q' (r\<lparr>date := d\<rparr>)"
  shows "\<forall>r'\<in>set rs'. Q' r'"
  using assms(1,2)
proof (induction rs arbitrary: rs')
  case Nil
  then show ?case by simp
next
  case (Cons r rs)
  from Cons.prems(1) obtain d rs2 where
    d: "to_datetime_cell parse (date r) = Inr d" and
    rs2: "to_datetime parse rs = Inr rs2" and
    eq: "rs' = r\<lparr>date := d\<rparr> # rs2"
    by (auto split: sum.splits)
  from Cons.IH[OF rs2] Cons.prems(2) have "\<forall>r'\<in>set rs2. Q' r'" by simp
  moreover from Cons.prems(2) d have "Q' (r\<lparr>date := d\<rparr>)" by (simp add: assms(3))
  ultimately show ?case using eq by simp
qed

lemma to_datetime_map:
  assumes "to_datetime parse rs = Inr rs'"
    and "\<And>r d. f (r\<lparr>date := d\<rparr>) = f r"
  shows "map f rs' = map f rs"
  using assms(1)
proof (induction rs arbitrary: rs')
  case Nil
  then show ?case by simp
next
  case (Cons r rs)
  from Cons.prems obtain d rs2 where
    rs2: "to_datetime parse rs = Inr rs2" and eq: "rs' = r\<lparr>date := d\<rparr> # rs2"
    by (auto split: sum.splits)
  from Cons.IH[OF rs2] eq show ?case by (simp add: assms(2))
qed


lemma assign_grouped_all:
  assumes "\<forall>r\<in>set rs. Q r" and "\<And>r v. Q r \<Longrightarrow> Q (setc c v r)"
  shows "\<forall>r'\<in>set (assign_grouped c res rs). Q r'"
  using assms(1)
proof (induction rs arbitrary: res)
  case Nil
  then show ?case by simp
next
  case (Cons r rs)
  then have "Q r" and rest: "\<forall>r\<in>set rs. Q r" by simp_all
  then show ?case using Cons.IH[OF rest] assms(2)[of r]
    by (cases "res (location r)") simp_all
qed

lemma assign_grouped_map:
  assumes "\<And>r v. f (setc c v r) = f r"
  shows "map f (assign_grouped c res rs) = map f rs"
proof (induction rs arbitrary: res)
  case Nil
  then show ?case by simp
next
  case (Cons r rs)
  then show ?case by (cases "res (location r)") (simp_all add: assms)
qed





lemma interpolate_cols_all:
  assumes "interpolate_cols cs df = Inr out"
    and "\<forall>r\<in>set (rows df). Q r" and "\<And>r c v. Q r \<Longrightarrow> Q (setc c v r)"
  shows "\<forall>r'\<in>set (rows out). Q r'"
  using assms(1,2)
proof (induction cs arbitrary: df)
  case Nil
  then show ?case by simp
next
  case (Cons c cs)
  from Cons.prems(1)
  have run: "interpolate_cols cs (df\<lparr>rows := interpolate_col c (rows df)\<rparr>) = Inr out"
    by (simp split: if_splits)
  have "\<forall>r\<in>set (interpolate_col c (rows df)). Q r"
    unfolding interpolate_col_def using Cons.prems(2) assms(3) by (rule assign_grouped_all)
  with Cons.IH[OF run] show ?case by simp
qed

lemma interpolate_cols_map:
  assumes "interpolate_cols cs df = Inr out" and "\<And>r c v. f (setc c v r) = f r"
  shows "map f (rows out) = map f (rows df)"
  using assms(1)
proof (induction cs arbitrary: df)
  case Nil
  then show ?case by simp
next
  case (Cons c cs)
  from Cons.prems
  have run: "interpolate_cols cs (df\<lparr>rows := interpolate_col c (rows df)\<rparr>) = Inr out"
    by (simp split: if_splits)
  from Cons.IH[OF run] show ?case
    by (simp add: interpolate_col_def assign_grouped_map assms(2))
qed

lemma interpolate_cols_columns:
  "interpolate_cols cs df = Inr out \<Longrightarrow>
   columns out = columns df \<and> (\<forall>c\<in>set cs. has_col (col_name c) df)"
proof (induction cs arbitrary: df)
  case Nil
  then show ?case by simp
next
  case (Cons c cs)
  from Cons.prems
  have hc: "has_col (col_name c) df"
    and run: "interpolate_cols cs (df\<lparr>rows := interpolate_col c (rows df)\<rparr>) = Inr out"
    by (simp_all split: if_splits)
  from Cons.IH[OF run] hc show ?case by (simp add: has_col_def)
qed


subsection \<open>The cleaning as a whole\<close>

lemma clean_core_steps:
  assumes "clean_core parse sel df = Inr out"
  obtains rs3 df4 where
    "has_col ''location'' df" "has_col ''date'' df"
    "to_datetime parse (filter (\<lambda>r. date r \<noteq> NaT) (filter_rows sel (rows df))) = Inr rs3"
    "interpolate_cols numeric_cols (df\<lparr>rows := rs3\<rparr>) = Inr df4"
    "out = fillna df4"
  using assms
  by (auto simp: clean_core_def filter_selected_def dropna_date_def has_col_def
      split: sum.splits if_splits)

lemma clean_steps:
  assumes "clean parse sel df = Inr out"
  obtains core where
    "clean_core parse sel df = Inr core"
    "has_col ''total_deaths'' core" "has_col ''total_cases'' core"
    "has_col ''people_vaccinated'' core" "has_col ''population'' core"
    "columns out = add_col ''vaccination_rate'' (add_col ''death_rate'' (columns core))"
    "rows out = map derive_row (rows core)"
proof -
  from assms obtain core d2 where
    c: "clean_core parse sel df = Inr core" and
    d: "derive_death_rate core = Inr d2" and
    v: "derive_vaccination_rate d2 = Inr out"
    by (auto simp: clean_def split: sum.splits)
  from d have hd: "has_col ''total_deaths'' core" "has_col ''total_cases'' core"
    and d2: "d2 = core\<lparr>columns := add_col ''death_rate'' (columns core),
                       rows := map (\<lambda>r. r\<lparr>death_rate := death_rate_of r\<rparr>) (rows core)\<rparr>"
    by (auto simp: derive_death_rate_def split: if_splits)
  from v have hv: "has_col ''people_vaccinated'' d2" "has_col ''population'' d2"
    and o: "out = d2\<lparr>columns := add_col ''vaccination_rate'' (columns d2),
                       rows := map (\<lambda>r. r\<lparr>vaccination_rate := vaccination_rate_of r\<rparr>) (rows d2)\<rparr>"
    by (auto simp: derive_vaccination_rate_def split: if_splits)
  have hv': "has_col ''people_vaccinated'' core" "has_col ''population'' core"
    using hv d2 by (auto simp: has_col_def add_col_def split: if_splits)
  have cols: "columns out = add_col ''vaccination_rate'' (add_col ''death_rate'' (columns core))"
    using o d2 by simp
  have rws: "rows out = map derive_row (rows core)"
    using o d2 by (simp add: derive_row_def vaccination_rate_of_def comp_def)
  from that[OF c hd hv' cols rws] show thesis .
qed

lemma getc_fillna_row: "getc c (fillna_row r) = fillna_cell (getc c r)"
  by (cases c) (simp_all add: fillna_row_def)

lemma fillna_cell_known: "fillna_cell x \<noteq> None"
  by (cases x) simp_all

lemma fillna_cell_Some: "\<exists>y. fillna_cell x = Some y"
  by (cases x) simp_all

lemma getc_derive_row: "getc c (derive_row r) = getc c r"
  by (cases c) (simp_all add: derive_row_def)

lemma date_derive_fillna: "date (derive_row (fillna_row r)) = fillna_date (date r)"
  by (simp add: derive_row_def fillna_row_def)

lemma derive_fillna_cleaned:
  assumes "location r \<in> set sel" "(\<exists>t. date r = Timestamp t) \<or> date r = NaT"
  shows "cleaned_row sel (derive_row (fillna_row r))"
proof -
  have d: "(\<exists>t. date (derive_row (fillna_row r)) = Timestamp t)
           \<or> date (derive_row (fillna_row r)) = DateInt 0"
    using assms(2) by (auto simp: date_derive_fillna)
  have g: "\<forall>c. getc c (derive_row (fillna_row r)) \<noteq> None"
    by (simp add: getc_derive_row getc_fillna_row fillna_cell_known)
  have rest: "location (derive_row (fillna_row r)) \<in> set sel
      \<and> population (derive_row (fillna_row r)) \<noteq> None
      \<and> death_rate (derive_row (fillna_row r)) = death_rate_of (derive_row (fillna_row r))
      \<and> vaccination_rate (derive_row (fillna_row r))
          = vaccination_rate_of (derive_row (fillna_row r))"
    using assms(1)
    by (simp add: derive_row_def fillna_row_def death_rate_of_def vaccination_rate_of_def
        fillna_cell_Some)
  from d g rest show ?thesis unfolding cleaned_row_def by blast
qed

lemma clean_core_rows:
  assumes "clean_core parse sel df = Inr core"
  shows "\<forall>r\<in>set (rows core). \<exists>r0. r = fillna_row r0 \<and> location r0 \<in> set sel
           \<and> ((\<exists>t. date r0 = Timestamp t) \<or> date r0 = NaT)"
proof -
  from assms obtain rs3 df4 where
    t: "to_datetime parse (filter (\<lambda>r. date r \<noteq> NaT) (filter_rows sel (rows df))) = Inr rs3" and
    i: "interpolate_cols numeric_cols (df\<lparr>rows := rs3\<rparr>) = Inr df4" and
    o: "core = fillna df4"
    by (rule clean_core_steps)
  have 0: "\<forall>r\<in>set (filter (\<lambda>r. date r \<noteq> NaT) (filter_rows sel (rows df))).
              location r \<in> set sel \<and> date r \<noteq> NaT"
    by (simp add: filter_rows_filter)
  have 1: "\<forall>r\<in>set rs3. location r \<in> set sel \<and> ((\<exists>t. date r = Timestamp t) \<or> date r = NaT)"
    by (rule to_datetime_all[OF t 0]) (auto dest: to_datetime_cell_Inr)
  have 2: "\<forall>r\<in>set (rows df4). location r \<in> set sel
             \<and> ((\<exists>t. date r = Timestamp t) \<or> date r = NaT)"
    by (rule interpolate_cols_all[OF i]) (use 1 in \<open>simp_all add: location_setc date_setc\<close>)
  show ?thesis using 2 o by (auto simp: fillna_def)
qed


lemma clean_cleaned:
  assumes "clean parse sel df = Inr out"
  shows "\<forall>r\<in>set (rows out). cleaned_row sel r"
proof -
  from assms obtain core where
    c: "clean_core parse sel df = Inr core" and r: "rows out = map derive_row (rows core)"
    by (rule clean_steps)
  from clean_core_rows[OF c] r show ?thesis
    by (auto simp: derive_fillna_cleaned)
qed

lemma fillna_columns: "columns (fillna df) = columns df"
  by (simp add: fillna_def)

lemma clean_columns:
  assumes "clean parse sel df = Inr out"
  shows "has_col ''location'' out \<and> has_col ''date'' out \<and> (\<forall>c. has_col (col_name c) out)
       \<and> has_col ''population'' out \<and> has_col ''death_rate'' out
       \<and> has_col ''vaccination_rate'' out"
proof -
  from assms obtain core where
    c: "clean_core parse sel df = Inr core" and
    p: "has_col ''population'' core" and
    cols: "columns out = add_col ''vaccination_rate'' (add_col ''death_rate'' (columns core))"
    by (rule clean_steps)
  from c obtain rs3 df4 where
    l: "has_col ''location'' df" "has_col ''date'' df" and
    i: "interpolate_cols numeric_cols (df\<lparr>rows := rs3\<rparr>) = Inr df4" and
    o: "core = fillna df4"
    by (rule clean_core_steps)
  from interpolate_cols_columns[OF i] have
    k: "columns df4 = columns df" "\<forall>c\<in>set numeric_cols. col_name c \<in> set (columns df)"
    by (simp_all add: has_col_def)
  have sub: "set (columns df) \<subseteq> set (columns out)"
    using cols o k(1) by (auto simp: add_col_def fillna_columns)
  have n: "\<forall>c. col_name c \<in> set (columns df)"
    using k(2) numeric_cols_all by blast
  have d: "''death_rate'' \<in> set (columns out)" "''vaccination_rate'' \<in> set (columns out)"
    using cols by (auto simp: add_col_def)
  from l p o k(1) sub n d show ?thesis
    by (auto simp: has_col_def fillna_columns)
qed

lemmas clean_defs = clean_def clean_core_def filter_selected_def filter_rows_def isin_def
  boolean_index_def dropna_date_def fillna_def fillna_row_def derive_death_rate_def
  derive_vaccination_rate_def death_rate_of_def vaccination_rate_of_def add_col_def

lemma scenario_run: "clean scenario_parse [''A''] scenario_frame = Inr scenario_cleaned"
  by (simp add: scenario_frame_def scenario_cleaned_def scenario_parse_def clean_defs eval_defs)






subsection \<open>Cleaning twice\<close>






subsection \<open>The two ratios\<close>

lemma derive_death_rate_total:
  assumes "has_col ''total_deaths'' df" "has_col ''total_cases'' df"
  shows "\<exists>out. derive_death_rate df = Inr out \<and> map death_rate (rows out) = map death_rate_of (rows df)"
  using assms by (simp add: derive_death_rate_def comp_def)

lemma derive_vaccination_rate_total:
  assumes "has_col ''people_vaccinated'' df" "has_col ''population'' df"
  shows "\<exists>out. derive_vaccination_rate df = Inr out
           \<and> map vaccination_rate (rows out) = map vaccination_rate_of (rows df)"
  using assms by (simp add: derive_vaccination_rate_def comp_def)

text \<open>
  C5, as the code has it. Neither division raises: with the columns present, lines 92
  and 117 always give a frame. With a zero or missing denominator the ratio of a row is
  NaN when the denominator is missing or the numerator is zero or missing, and an
  infinity of the numerator's sign when the denominator is zero and the numerator is
  not.
\<close>
theorem ratio_of_zero_denominator:
  "(total_cases r = None \<or> total_cases r = Some 0 \<longrightarrow>
      death_rate_of r =
        (case total_deaths r of
           None \<Rightarrow> NaN
         | Some a \<Rightarrow> if total_cases r = None \<or> a = 0 then NaN
                     else if 0 < a then PosInf else NegInf))
   \<and> (population r = None \<or> population r = Some 0 \<longrightarrow>
      vaccination_rate_of r =
        (case people_vaccinated r of
           None \<Rightarrow> NaN
         | Some a \<Rightarrow> if population r = None \<or> a = 0 then NaN
                     else if 0 < a then PosInf else NegInf))
   \<and> (has_col ''total_deaths'' df \<and> has_col ''total_cases'' df \<longrightarrow>
        (\<exists>out. derive_death_rate df = Inr out
           \<and> map death_rate (rows out) = map death_rate_of (rows df)))
   \<and> (has_col ''people_vaccinated'' df \<and> has_col ''population'' df \<longrightarrow>
        (\<exists>out. derive_vaccination_rate df = Inr out
           \<and> map vaccination_rate (rows out) = map vaccination_rate_of (rows df)))"
proof -
  have 1: "total_cases r = None \<or> total_cases r = Some 0 \<longrightarrow>
      death_rate_of r =
        (case total_deaths r of
           None \<Rightarrow> NaN
         | Some a \<Rightarrow> if total_cases r = None \<or> a = 0 then NaN
                     else if 0 < a then PosInf else NegInf)"
    by (cases "total_deaths r"; cases "total_cases r") (auto simp: death_rate_of_def)
  have 2: "population r = None \<or> population r = Some 0 \<longrightarrow>
      vaccination_rate_of r =
        (case people_vaccinated r of
           None \<Rightarrow> NaN
         | Some a \<Rightarrow> if population r = None \<or> a = 0 then NaN
                     else if 0 < a then PosInf else NegInf)"
    by (cases "people_vaccinated r"; cases "population r") (auto simp: vaccination_rate_of_def)
  from 1 2 derive_death_rate_total[of df] derive_vaccination_rate_total[of df]
  show ?thesis by blast
qed

theorem ratio_of_zero_denominator_witness:
  "total_cases zero_row = Some 0 \<and> death_rate_of zero_row = PosInf
   \<and> population zero_row = Some 0 \<and> vaccination_rate_of zero_row = NaN
   \<and> has_col ''total_deaths'' zero_frame \<and> has_col ''total_cases'' zero_frame
   \<and> (\<exists>out. derive_death_rate zero_frame = Inr out
         \<and> map death_rate (rows out) = map death_rate_of (rows zero_frame))
   \<and> has_col ''people_vaccinated'' zero_frame \<and> has_col ''population'' zero_frame
   \<and> (\<exists>out. derive_vaccination_rate zero_frame = Inr out
         \<and> map vaccination_rate (rows out) = map vaccination_rate_of (rows zero_frame))"
proof -
  note t = ratio_of_zero_denominator[of zero_row zero_frame]
  have a: "total_cases zero_row = Some 0" "population zero_row = Some 0"
    "total_deaths zero_row = Some 1" "people_vaccinated zero_row = Some 0"
    by (simp_all add: zero_row_def example_row_def)
  have c: "has_col ''total_deaths'' zero_frame" "has_col ''total_cases'' zero_frame"
    "has_col ''people_vaccinated'' zero_frame" "has_col ''population'' zero_frame"
    by (simp_all add: zero_frame_def has_col_def source_columns_def)
  from t a have d: "death_rate_of zero_row = PosInf" by simp
  from t a have v: "vaccination_rate_of zero_row = NaN" by simp
  from t c have e: "\<exists>out. derive_death_rate zero_frame = Inr out
         \<and> map death_rate (rows out) = map death_rate_of (rows zero_frame)" by blast
  from t c have f: "\<exists>out. derive_vaccination_rate zero_frame = Inr out
         \<and> map vaccination_rate (rows out) = map vaccination_rate_of (rows zero_frame)" by blast
  from a c d v e f show ?thesis by blast
qed

text \<open>
  C5 as stated fails: one death on zero cases gives the death rate \<open>+inf\<close>, and five
  people vaccinated on a population of 0 give the vaccination rate \<open>+inf\<close>; neither is
  the undefined marker NaN.
\<close>
theorem ratio_of_zero_denominator_counterexample:
  "death_rate_of (example_row ''A'' (Timestamp 1) (Some 0) (Some 1) None None) = PosInf
   \<and> vaccination_rate_of (example_row ''A'' (Timestamp 1) None None (Some 5) (Some 0)) = PosInf
   \<and> PosInf \<noteq> NaN"
  by (simp add: death_rate_of_def vaccination_rate_of_def example_row_def)

subsection \<open>The zero-fill and the population\<close>

lemma population_fillna_row: "population (fillna_row r) = fillna_cell (population r)"
  by (simp add: fillna_row_def)

lemma population_derive_row: "population (derive_row r) = population r"
  by (simp add: derive_row_def)

lemma clean_population:
  assumes "clean parse sel df = Inr out"
  shows "map population (rows out)
           = map (\<lambda>r. fillna_cell (population r))
               (filter (\<lambda>r. date r \<noteq> NaT) (filter_rows sel (rows df)))"
proof -
  from assms obtain core where
    c: "clean_core parse sel df = Inr core" and r: "rows out = map derive_row (rows core)"
    by (rule clean_steps)
  from c obtain rs3 df4 where
    t: "to_datetime parse (filter (\<lambda>r. date r \<noteq> NaT) (filter_rows sel (rows df))) = Inr rs3" and
    i: "interpolate_cols numeric_cols (df\<lparr>rows := rs3\<rparr>) = Inr df4" and
    o: "core = fillna df4"
    by (rule clean_core_steps)
  have 1: "map population rs3
             = map population (filter (\<lambda>r. date r \<noteq> NaT) (filter_rows sel (rows df)))"
    by (rule to_datetime_map[OF t]) simp
  have 2: "map population (rows df4) = map population rs3"
    using interpolate_cols_map[OF i, of population] by (simp add: population_setc)
  have "map population (rows out) = map fillna_cell (map population (rows df4))"
    using r o by (simp add: fillna_def comp_def population_derive_row population_fillna_row)
  with 1 2 show ?thesis by (simp add: comp_def)
qed

lemma cleaned_zero_population:
  assumes "cleaned_row sel r" "population r = Some 0"
  shows "\<exists>v. people_vaccinated r = Some v
           \<and> vaccination_rate r = (if v = 0 then NaN else if 0 < v then PosInf else NegInf)"
proof -
  from assms(1) have "getc People_vaccinated r \<noteq> None"
    and v: "vaccination_rate r = vaccination_rate_of r"
    unfolding cleaned_row_def by blast+
  then obtain a where a: "people_vaccinated r = Some a" by auto
  with v assms(2) show ?thesis by (simp add: vaccination_rate_of_def)
qed

text \<open>
  C10, as the code has it. The zero-fill of line 50 goes over the population column
  too: the population column of the cleaned table is that of the kept source rows with
  each missing value replaced by 0. A cleaned row with population 0 has the vaccination
  rate NaN when its people vaccinated is 0, \<open>+inf\<close> when it is positive and \<open>-inf\<close> when it
  is negative.
\<close>
theorem fillna_reaches_population:
  assumes "clean parse sel df = Inr out"
  shows "map population (rows out)
           = map (\<lambda>r. fillna_cell (population r))
               (filter (\<lambda>r. date r \<noteq> NaT) (filter_rows sel (rows df)))
       \<and> (\<forall>r\<in>set (rows out). population r = Some 0 \<longrightarrow>
            (\<exists>v. people_vaccinated r = Some v
               \<and> vaccination_rate r = (if v = 0 then NaN else if 0 < v then PosInf else NegInf)))"
  using clean_population[OF assms] clean_cleaned[OF assms] cleaned_zero_population
  by blast

theorem fillna_reaches_population_witness:
  "clean scenario_parse [''A''] scenario_frame = Inr scenario_cleaned
   \<and> map population (rows scenario_cleaned) = [Some 1000, Some 0, Some 1000]
   \<and> population (rows scenario_cleaned ! 1) = Some 0
   \<and> people_vaccinated (rows scenario_cleaned ! 1) = Some 5
   \<and> vaccination_rate (rows scenario_cleaned ! 1) = PosInf"
proof -
  note t = fillna_reaches_population[OF scenario_run]
  from t have a: "map population (rows scenario_cleaned)
           = map (\<lambda>r. fillna_cell (population r))
               (filter (\<lambda>r. date r \<noteq> NaT) (filter_rows [''A''] (rows scenario_frame)))"
    by (rule conjunct1)
  have b: "map (\<lambda>r. fillna_cell (population r))
               (filter (\<lambda>r. date r \<noteq> NaT) (filter_rows [''A''] (rows scenario_frame)))
             = [Some 1000, Some 0, Some 1000]"
    by (simp add: scenario_frame_def clean_defs eval_defs)
  from a b have c: "map population (rows scenario_cleaned) = [Some 1000, Some 0, Some 1000]"
    by (rule trans)
  have m: "rows scenario_cleaned ! 1 \<in> set (rows scenario_cleaned)"
    and p: "population (rows scenario_cleaned ! 1) = Some 0"
    and v: "people_vaccinated (rows scenario_cleaned ! 1) = Some 5"
    by (simp_all add: scenario_cleaned_def)
  from t m p obtain x where "people_vaccinated (rows scenario_cleaned ! 1) = Some x"
    "vaccination_rate (rows scenario_cleaned ! 1)
       = (if x = 0 then NaN else if 0 < x then PosInf else NegInf)"
    by blast
  with v have d: "vaccination_rate (rows scenario_cleaned ! 1) = PosInf" by simp
  from scenario_run c p v d show ?thesis by blast
qed

text \<open>
  C10 as stated fails: a row without population and with five people vaccinated is
  cleaned to population 0 and the vaccination rate \<open>+inf\<close>, not NaN.
\<close>
theorem fillna_reaches_population_counterexample:
  "clean scenario_parse [''A'']
     \<lparr>columns = source_columns,
      rows = [example_row ''A'' (Timestamp 1) None None (Some 5) None]\<rparr>
   = Inr \<lparr>columns = source_columns @ [''death_rate'', ''vaccination_rate''],
          rows = [\<lparr>location = ''A'', date = Timestamp 1, total_cases = Some 0,
                   new_cases = Some 0, total_deaths = Some 0, new_deaths = Some 0,
                   total_vaccinations = Some 0, people_vaccinated = Some 5,
                   population = Some 0, death_rate = NaN, vaccination_rate = PosInf\<rparr>]\<rparr>
   \<and> PosInf \<noteq> NaN"
  by (simp add: clean_defs eval_defs)

subsection \<open>The latest row of each country\<close>

lemma set_group_keys: "set (group_keys rs) = location ` set rs"
  by (simp add: group_keys_def)

lemma distinct_group_keys: "distinct (group_keys rs)"
  by (simp add: group_keys_def)

lemma filter_eq_distinct: "distinct xs \<Longrightarrow> x \<in> set xs \<Longrightarrow> filter (\<lambda>y. y = x) xs = [x]"
  by (induction xs) (auto simp: filter_empty_conv)

lemma location_last_of_group: "location (last_of_group g grp) = g"
  by (simp add: last_of_group_def)

lemma groupby_last_entity:
  assumes "e \<in> location ` set rs"
  shows "filter (\<lambda>r. location r = e) (groupby_last rs) = [last_of_group e (group_rows e rs)]"
proof -
  have "filter (\<lambda>r. location r = e) (groupby_last rs)
          = map (\<lambda>g. last_of_group g (group_rows g rs)) (filter (\<lambda>g. g = e) (group_keys rs))"
    by (simp add: groupby_last_def filter_map comp_def location_last_of_group)
  also have "filter (\<lambda>g. g = e) (group_keys rs) = [e]"
    using assms by (intro filter_eq_distinct) (simp_all add: distinct_group_keys set_group_keys)
  finally show ?thesis by simp
qed

lemma last_valid_last:
  "xs \<noteq> [] \<Longrightarrow> last xs \<noteq> None \<Longrightarrow> last_valid xs = last xs"
  by (induction xs) (auto split: option.splits)

lemma last_valid_Nil_iff: "last_valid xs = None \<longleftrightarrow> (\<forall>x\<in>set xs. x = None)"
  by (induction xs) (auto split: option.splits)

lemma last_date_last:
  "xs \<noteq> [] \<Longrightarrow> last xs \<noteq> NaT \<Longrightarrow> last_date xs = last xs"
  by (induction xs) (auto split: datecell.splits)

lemma sorted_wrt_last:
  "sorted_wrt R xs \<Longrightarrow> x \<in> set xs \<Longrightarrow> x = last xs \<or> R x (last xs)"
  by (induction xs) auto

lemma getc_fun:
  "getc Total_cases = total_cases" "getc New_cases = new_cases"
  "getc Total_deaths = total_deaths" "getc New_deaths = new_deaths"
  "getc Total_vaccinations = total_vaccinations" "getc People_vaccinated = people_vaccinated"
  by (simp_all add: fun_eq_iff)

lemma getc_last_of_group: "getc c (last_of_group g grp) = last_valid (map (getc c) grp)"
  by (cases c) (simp_all add: last_of_group_def getc_fun)

lemma last_of_group_cleaned:
  assumes "\<forall>r\<in>set grp. cleaned_row sel r" and "grp \<noteq> []"
  shows "date (last_of_group g grp) = date (last grp)
       \<and> (\<forall>c. getc c (last_of_group g grp) = getc c (last grp))
       \<and> population (last_of_group g grp) = population (last grp)"
proof -
  from assms have l: "cleaned_row sel (last grp)" by simp
  have d: "last_date (map date grp) = date (last grp)"
    using assms(2) l by (subst last_date_last) (auto simp: last_map cleaned_row_def)
  have p: "last_valid (map population grp) = population (last grp)"
    using assms(2) l by (subst last_valid_last) (auto simp: last_map cleaned_row_def)
  have c: "last_valid (map (getc c) grp) = getc c (last grp)" for c
    using assms(2) l by (subst last_valid_last) (auto simp: last_map cleaned_row_def)
  from d p c show ?thesis
    by (simp add: getc_last_of_group) (simp add: last_of_group_def)
qed

lemma group_rows_nonempty: "e \<in> location ` set rs \<Longrightarrow> group_rows e rs \<noteq> []"
  by (auto simp: group_rows_def filter_empty_conv)

text \<open>
  C1, as the code has it. For each country of a cleaned table the summary of line 130
  has exactly one row; its date, its six numeric values and its population are those
  of the country's last row in the order of the table. When the country's rows stand in
  ascending date order, no row of the country has a later date.
\<close>
theorem latest_is_last_in_source_order:
  assumes "clean parse sel df = Inr out" and "e \<in> location ` set (rows out)"
  shows "\<exists>l. filter (\<lambda>r. location r = e) (groupby_last (rows out)) = [l]
           \<and> date l = date (last (group_rows e (rows out)))
           \<and> (\<forall>c. getc c l = getc c (last (group_rows e (rows out))))
           \<and> population l = population (last (group_rows e (rows out)))
           \<and> (sorted_wrt (\<lambda>a b. date_le (date a) (date b)) (group_rows e (rows out)) \<longrightarrow>
                (\<forall>r\<in>set (group_rows e (rows out)). date_le (date r) (date l)))"
proof -
  let ?grp = "group_rows e (rows out)"
  let ?l = "last_of_group e ?grp"
  have cl: "\<forall>r\<in>set ?grp. cleaned_row sel r"
    using clean_cleaned[OF assms(1)] by (simp add: group_rows_def)
  have ne: "?grp \<noteq> []" by (rule group_rows_nonempty[OF assms(2)])
  note f = last_of_group_cleaned[OF cl ne, of e]
  have s: "date_le (date r) (date ?l)"
    if srt: "sorted_wrt (\<lambda>a b. date_le (date a) (date b)) ?grp" and r: "r \<in> set ?grp" for r
  proof -
    from cl r have t: "(\<exists>t. date r = Timestamp t) \<or> date r = DateInt 0"
      by (auto simp: cleaned_row_def)
    from sorted_wrt_last[OF srt r] have "r = last ?grp \<or> date_le (date r) (date (last ?grp))" .
    then have "date_le (date r) (date (last ?grp))" using t by auto
    with f show ?thesis by simp
  qed
  from groupby_last_entity[OF assms(2)] f s show ?thesis by blast
qed

lemma unsorted_run: "clean scenario_parse [''A''] unsorted_frame = Inr unsorted_cleaned"
  by (simp add: unsorted_frame_def unsorted_cleaned_def clean_defs eval_defs)

theorem latest_is_last_in_source_order_witness:
  "clean scenario_parse [''A''] scenario_frame = Inr scenario_cleaned
   \<and> ''A'' \<in> location ` set (rows scenario_cleaned)
   \<and> sorted_wrt (\<lambda>a b. date_le (date a) (date b)) (group_rows ''A'' (rows scenario_cleaned))
   \<and> rows scenario_cleaned ! 0 \<in> set (group_rows ''A'' (rows scenario_cleaned))
   \<and> (\<exists>l. filter (\<lambda>r. location r = ''A'') (groupby_last (rows scenario_cleaned)) = [l]
          \<and> date l = Timestamp 18630
          \<and> getc Total_cases l = Some 30
          \<and> population l = Some 1000
          \<and> date_le (date (rows scenario_cleaned ! 0)) (date l))"
proof -
  have a: "''A'' \<in> location ` set (rows scenario_cleaned)"
    by (simp add: scenario_cleaned_def)
  have srt: "sorted_wrt (\<lambda>a b. date_le (date a) (date b)) (group_rows ''A'' (rows scenario_cleaned))"
    by (simp add: scenario_cleaned_def group_rows_def)
  have m: "rows scenario_cleaned ! 0 \<in> set (group_rows ''A'' (rows scenario_cleaned))"
    by (simp add: scenario_cleaned_def group_rows_def)
  have lst: "date (last (group_rows ''A'' (rows scenario_cleaned))) = Timestamp 18630"
    "getc Total_cases (last (group_rows ''A'' (rows scenario_cleaned))) = Some 30"
    "population (last (group_rows ''A'' (rows scenario_cleaned))) = Some 1000"
    by (simp_all add: scenario_cleaned_def group_rows_def)
  from latest_is_last_in_source_order[OF scenario_run a] obtain l where
    l: "filter (\<lambda>r. location r = ''A'') (groupby_last (rows scenario_cleaned)) = [l]"
      "date l = date (last (group_rows ''A'' (rows scenario_cleaned)))"
      "\<forall>c. getc c l = getc c (last (group_rows ''A'' (rows scenario_cleaned)))"
      "population l = population (last (group_rows ''A'' (rows scenario_cleaned)))"
      "sorted_wrt (\<lambda>a b. date_le (date a) (date b)) (group_rows ''A'' (rows scenario_cleaned)) \<longrightarrow>
         (\<forall>r\<in>set (group_rows ''A'' (rows scenario_cleaned)). date_le (date r) (date l))"
    by blast
  from l(5) srt m have le: "date_le (date (rows scenario_cleaned ! 0)) (date l)" by blast
  from l(2) lst(1) have d: "date l = Timestamp 18630" by (rule trans)
  from l(3) lst(2) have c: "getc Total_cases l = Some 30" by simp
  from l(4) lst(3) have p: "population l = Some 1000" by (rule trans)
  from scenario_run a srt m l(1) d c p le show ?thesis by blast
qed

text \<open>
  C1 as stated fails: the cleaned table has the rows of A in the order day 2, day 1;
  the summary keeps the row of day 1, the last in the table, although day 2 is the
  maximum date.
\<close>
theorem latest_is_last_in_source_order_counterexample:
  "clean scenario_parse [''A''] unsorted_frame = Inr unsorted_cleaned
   \<and> map date (rows unsorted_cleaned) = [Timestamp 2, Timestamp 1]
   \<and> map date (groupby_last (rows unsorted_cleaned)) = [Timestamp 1]
   \<and> map total_cases (groupby_last (rows unsorted_cleaned)) = [Some 10]
   \<and> \<not> date_le (Timestamp 2) (Timestamp 1)"
proof -
  have 1: "map date (rows unsorted_cleaned) = [Timestamp 2, Timestamp 1]"
    by (simp add: unsorted_cleaned_def)
  have 2: "map date (groupby_last (rows unsorted_cleaned)) = [Timestamp 1]"
    by (simp add: unsorted_cleaned_def groupby_last_def group_keys_def group_rows_def
        last_of_group_def)
  have 3: "map total_cases (groupby_last (rows unsorted_cleaned)) = [Some 10]"
    by (simp add: unsorted_cleaned_def groupby_last_def group_keys_def group_rows_def
        last_of_group_def)
  have 4: "\<not> date_le (Timestamp 2) (Timestamp 1)" by simp
  from unsorted_run 1 2 3 4 show ?thesis by blast
qed

subsection \<open>The whole run\<close>

lemma three_run:
  "clean scenario_parse [''Kenya'', ''United States'', ''India''] three_frame = Inr three_cleaned"
  by (simp add: three_frame_def three_cleaned_def clean_defs eval_defs)

lemma str_nat_3: "str_nat 3 = ''3''"
  by code_simp

lemma analyze_ends: 
  "analyze_covid_data fs parse p sel \<noteq> []
   \<and> last (analyze_covid_data fs parse p sel) = complete_notice"
  by (simp add: analyze_covid_data_def split: prod.splits option.splits)

lemma analyze_failure:
  "snd (try_body fs parse p sel) = Some e \<Longrightarrow>
   analyze_covid_data fs parse p sel = fst (try_body fs parse p sel) @ handler p e @ [complete_notice]"
  by (cases "try_body fs parse p sel") (simp add: analyze_covid_data_def)

lemma analyze_success:
  "snd (try_body fs parse p sel) = None \<Longrightarrow>
   analyze_covid_data fs parse p sel = fst (try_body fs parse p sel) @ [complete_notice]"
  by (cases "try_body fs parse p sel") (simp add: analyze_covid_data_def)

lemma try_body_no_file: "fs p = None \<Longrightarrow> try_body fs parse p sel = ([], Some FileNotFoundError)"
  by (simp add: try_body_def read_csv_def)

lemma handler_kind:
  "\<exists>msg rest. handler p e = Print msg # rest
     \<and> (case e of
           FileNotFoundError \<Rightarrow> prefix ''Error: The file '' msg
         | KeyError k \<Rightarrow> prefix ''Error: A required column is missing: '' msg
         | Exception m \<Rightarrow> prefix ''An unexpected error occurred: '' msg)"
  by (cases e) simp_all

text \<open>
  C8. Whatever the input, the run returns its sequence of events and the last event
  is the notice "Analysis complete.". When the body of \<^verbatim>\<open>try\<close> ends with an exception,
  the events are those before it, the report of the matching \<^verbatim>\<open>except\<close> clause, and
  the notice; the report begins with a text that names the kind of failure. A path that
  is not in the file system gives the report of the missing file and the notice, and
  nothing else.
\<close>
theorem failure_is_reported_and_run_completes:
  "analyze_covid_data fs parse p sel \<noteq> []
   \<and> last (analyze_covid_data fs parse p sel) = complete_notice
   \<and> (\<forall>e. snd (try_body fs parse p sel) = Some e \<longrightarrow>
         analyze_covid_data fs parse p sel
           = fst (try_body fs parse p sel) @ handler p e @ [complete_notice])
   \<and> (\<forall>e. \<exists>msg rest. handler p e = Print msg # rest
         \<and> (case e of
               FileNotFoundError \<Rightarrow> prefix ''Error: The file '' msg
             | KeyError k \<Rightarrow> prefix ''Error: A required column is missing: '' msg
             | Exception m \<Rightarrow> prefix ''An unexpected error occurred: '' msg))
   \<and> (fs p = None \<longrightarrow>
         analyze_covid_data fs parse p sel
           = [Print (''Error: The file '' @ quoted p
                       @ '' was not found. Please check the file path.''),
              complete_notice])"
proof -
  have 3: "\<forall>e. snd (try_body fs parse p sel) = Some e \<longrightarrow>
         analyze_covid_data fs parse p sel
           = fst (try_body fs parse p sel) @ handler p e @ [complete_notice]"
    using analyze_failure by blast
  have 4: "\<forall>e. \<exists>msg rest. handler p e = Print msg # rest
         \<and> (case e of
               FileNotFoundError \<Rightarrow> prefix ''Error: The file '' msg
             | KeyError k \<Rightarrow> prefix ''Error: A required column is missing: '' msg
             | Exception m \<Rightarrow> prefix ''An unexpected error occurred: '' msg)"
    using handler_kind by blast
  have 5: "fs p = None \<longrightarrow>
         analyze_covid_data fs parse p sel
           = [Print (''Error: The file '' @ quoted p
                       @ '' was not found. Please check the file path.''),
              complete_notice]"
    by (simp add: analyze_covid_data_def try_body_no_file)
  from analyze_ends[of fs parse p sel] 3 4 5 show ?thesis by blast
qed

theorem failure_is_reported_and_run_completes_witness:
  "(\<lambda>path. None :: csv_file option) ''owid-covid-data.csv'' = None
   \<and> snd (try_body (\<lambda>path. None) scenario_parse ''owid-covid-data.csv'' [''Kenya''])
       = Some FileNotFoundError
   \<and> analyze_covid_data (\<lambda>path. None) scenario_parse ''owid-covid-data.csv'' [''Kenya'']
       = [Print (''Error: The file '' @ quoted ''owid-covid-data.csv''
                   @ '' was not found. Please check the file path.''),
          complete_notice]
   \<and> last (analyze_covid_data (\<lambda>path. None) scenario_parse ''owid-covid-data.csv'' [''Kenya''])
       = complete_notice"
proof -
  note t = failure_is_reported_and_run_completes
    [of "\<lambda>path. None" scenario_parse "''owid-covid-data.csv''" "[''Kenya'']"]
  have a: "(\<lambda>path. None :: csv_file option) ''owid-covid-data.csv'' = None" by simp
  have b: "snd (try_body (\<lambda>path. None) scenario_parse ''owid-covid-data.csv'' [''Kenya''])
       = Some FileNotFoundError"
    by (simp add: try_body_no_file)
  from t a have c: "analyze_covid_data (\<lambda>path. None) scenario_parse ''owid-covid-data.csv'' [''Kenya'']
       = [Print (''Error: The file '' @ quoted ''owid-covid-data.csv''
                   @ '' was not found. Please check the file path.''),
          complete_notice]"
    by blast
  from t have d: "last (analyze_covid_data (\<lambda>path. None) scenario_parse ''owid-covid-data.csv'' [''Kenya''])
       = complete_notice"
    by blast
  from a b c d show ?thesis by blast
qed

subsection \<open>The population snapshot\<close>

lemma length_groupby_last: "length (groupby_last rs) = length (group_keys rs)"
  by (simp add: groupby_last_def)

lemma length_group_keys: "length (group_keys rs) = card (location ` set rs)"
  by (simp add: group_keys_def length_remdups_card_conv)

lemma map_location_groupby_last: "map location (groupby_last rs) = group_keys rs"
  by (simp add: groupby_last_def comp_def location_last_of_group)

lemma try_body_clean:
  assumes "fs p = Some (Table df)" and "clean parse sel df = Inr c"
  shows "try_body fs parse p sel =
     (case latest_summary c of
        Inl e \<Rightarrow> (events_before_summary p, Some e)
      | Inr l \<Rightarrow> (events_before_summary p @ bar_chart # insight_events, None))"
proof -
  from assms(2) obtain c1 c2 where
    "clean_core parse sel df = Inr c1" "derive_death_rate c1 = Inr c2"
    "derive_vaccination_rate c2 = Inr c"
    by (auto simp: clean_def split: sum.splits)
  with assms(1) show ?thesis
    by (simp add: try_body_def read_csv_def events_before_summary_def split: sum.splits)
qed

lemma length_snapshot_population: "length snapshot_population = 3"
  by (simp add: snapshot_population_def)

lemma length_reset_index: "length (reset_index rs) = length rs"
  by (simp add: reset_index_def)

lemma map_location_reset_index: "map location (reset_index rs) = map (\<lambda>r. Some (location r)) rs"
  by (simp add: reset_index_def comp_def)

lemma length_summary: "length (reset_index (groupby_last rs)) = length (group_keys rs)"
  by (simp add: length_reset_index length_groupby_last)

lemma set_population_mismatch:
  "rs \<noteq> [] \<Longrightarrow> length rs \<noteq> 3 \<Longrightarrow>
   set_population snapshot_population rs
     = Inl (Exception (''Length of values (3) does not match length of index (''
                         @ str_nat (length rs) @ '')''))"
  by (simp add: set_population_def length_snapshot_population str_nat_3)

lemma set_population_match:
  assumes "length rs = length vals" and "rs \<noteq> []"
  shows "\<exists>ls. set_population vals rs = Inr ls
           \<and> map population ls = map Some vals \<and> map location ls = map location rs"
proof -
  let ?ls = "map (\<lambda>(r, v). r\<lparr>population := Some v\<rparr>) (zip rs vals)"
  have a: "set_population vals rs = Inr ?ls"
    using assms by (simp add: set_population_def)
  have b: "map population ?ls = map Some vals"
    using assms(1) by (induction rs vals rule: list_induct2) simp_all
  have c: "map location ?ls = map location rs"
    using assms(1) by (induction rs vals rule: list_induct2) simp_all
  from a b c show ?thesis by blast
qed

lemma latest_summary_mismatch:
  assumes "has_col ''location'' c"
    and "length (group_keys (rows c)) \<noteq> 3" and "length (group_keys (rows c)) \<noteq> 0"
  shows "latest_summary c
     = Inl (Exception (''Length of values (3) does not match length of index (''
                         @ str_nat (length (group_keys (rows c))) @ '')''))"
proof -
  have "reset_index (groupby_last (rows c)) \<noteq> []"
    using assms(3) length_summary[of "rows c"] by auto
  moreover have "length (reset_index (groupby_last (rows c))) \<noteq> 3"
    using assms(2) by (simp add: length_summary)
  ultimately show ?thesis using assms(1)
    by (simp add: latest_summary_def set_population_mismatch length_summary)
qed

lemma latest_summary_match:
  assumes "has_col ''location'' c" and "length (group_keys (rows c)) = 3"
  shows "\<exists>ls. latest_summary c = Inr ls
           \<and> map location ls = map Some (group_keys (rows c))
           \<and> map population ls = [Some 100000000, Some 330000000, Some 1400000000]"
proof -
  have l: "length (reset_index (groupby_last (rows c))) = length snapshot_population"
    using assms(2) by (simp add: length_summary snapshot_population_def)
  have n: "reset_index (groupby_last (rows c)) \<noteq> []"
    using assms(2) length_summary[of "rows c"] by auto
  from set_population_match[OF l n] obtain ls where
    ls: "set_population snapshot_population (reset_index (groupby_last (rows c))) = Inr ls"
      "map population ls = map Some snapshot_population"
      "map location ls = map location (reset_index (groupby_last (rows c)))"
    by blast
  have k: "map location (reset_index (groupby_last (rows c))) = map Some (group_keys (rows c))"
    using map_location_groupby_last[of "rows c", symmetric]
    by (simp add: map_location_reset_index comp_def)
  from ls k show ?thesis using assms(1)
    by (simp add: latest_summary_def comp_def snapshot_population_def)
qed

lemma vaccination_rate_reindexed:
  "(reindexed_row v)\<lparr>vaccination_rate := vaccination_rate_of (reindexed_row v)\<rparr> = reindexed_row v"
  by (simp add: reindexed_row_def vaccination_rate_of_def)

lemma latest_summary_empty:
  assumes "has_col ''location'' c" and "length (group_keys (rows c)) = 0"
  shows "latest_summary c = Inr (map reindexed_row [100000000, 330000000, 1400000000])"
proof -
  have "reset_index (groupby_last (rows c)) = []"
    using assms(2) length_summary[of "rows c"] by simp
  then show ?thesis using assms(1)
    by (simp add: latest_summary_def set_population_def snapshot_population_def
        vaccination_rate_reindexed)
qed

lemma bar_chart_not_before: "bar_chart \<notin> set (events_before_summary p)"
  by (simp add: events_before_summary_def bar_chart_def exploration_events_def
      cleaning_events_def death_rate_events_def vaccination_rate_events_def)

lemma bar_chart_not_handler: "bar_chart \<notin> set (handler p e)"
  by (cases e) (simp_all add: bar_chart_def)

lemma bar_chart_not_notice: "bar_chart \<noteq> complete_notice"
  by (simp add: bar_chart_def complete_notice_def)

lemma empty_run: "clean scenario_parse [''USA''] three_frame = Inr empty_cleaned"
  by (simp add: three_frame_def empty_cleaned_def clean_defs eval_defs)

text \<open>
  C9, as the code has it. Line 133 assigns three fixed numbers to the population
  column of the summary, which has one row for each country of the cleaned table. With
  a number of countries other than three and other than none the assignment raises the
  length error, the catch-all clause reports it, the bar chart is not shown, and the run
  still ends with the notice. With exactly three countries the summary is built, its
  populations are the three fixed numbers in the order of the sorted country names,
  whatever the table's own populations are, and the bar chart is shown. With no country
  at all the assignment does not raise: the summary gets three rows with the three fixed
  numbers as population and every other value missing.
\<close>
theorem population_snapshot_needs_three_entities:
  assumes "fs p = Some (Table df)" and "clean parse sel df = Inr c"
  shows "length (group_keys (rows c)) = card (location ` set (rows c))
       \<and> (length (group_keys (rows c)) \<noteq> 3 \<and> length (group_keys (rows c)) \<noteq> 0 \<longrightarrow>
            latest_summary c
              = Inl (Exception (''Length of values (3) does not match length of index (''
                                  @ str_nat (length (group_keys (rows c))) @ '')''))
            \<and> bar_chart \<notin> set (analyze_covid_data fs parse p sel)
            \<and> Print (''An unexpected error occurred: ''
                       @ ''Length of values (3) does not match length of index (''
                       @ str_nat (length (group_keys (rows c))) @ '')'')
                \<in> set (analyze_covid_data fs parse p sel)
            \<and> last (analyze_covid_data fs parse p sel) = complete_notice)
       \<and> (length (group_keys (rows c)) = 3 \<longrightarrow>
            (\<exists>ls. latest_summary c = Inr ls
               \<and> map location ls = map Some (group_keys (rows c))
               \<and> map population ls = [Some 100000000, Some 330000000, Some 1400000000])
            \<and> bar_chart \<in> set (analyze_covid_data fs parse p sel))
       \<and> (length (group_keys (rows c)) = 0 \<longrightarrow>
            latest_summary c = Inr (map reindexed_row [100000000, 330000000, 1400000000]))"
proof -
  have hc: "has_col ''location'' c" using clean_columns[OF assms(2)] by simp
  note tb = try_body_clean[of fs p df parse sel c, OF assms]
  have 1: "length (group_keys (rows c)) = card (location ` set (rows c))"
    by (rule length_group_keys)
  have 2: "latest_summary c
              = Inl (Exception (''Length of values (3) does not match length of index (''
                                  @ str_nat (length (group_keys (rows c))) @ '')''))
            \<and> bar_chart \<notin> set (analyze_covid_data fs parse p sel)
            \<and> Print (''An unexpected error occurred: ''
                       @ ''Length of values (3) does not match length of index (''
                       @ str_nat (length (group_keys (rows c))) @ '')'')
                \<in> set (analyze_covid_data fs parse p sel)
            \<and> last (analyze_covid_data fs parse p sel) = complete_notice"
    if n: "length (group_keys (rows c)) \<noteq> 3 \<and> length (group_keys (rows c)) \<noteq> 0"
  proof -
    from n have n3: "length (group_keys (rows c)) \<noteq> 3" and n0: "length (group_keys (rows c)) \<noteq> 0"
      by simp_all
    note ls = latest_summary_mismatch[OF hc n3 n0]
    have a: "analyze_covid_data fs parse p sel
               = events_before_summary p
                 @ handler p (Exception (''Length of values (3) does not match length of index (''
                                  @ str_nat (length (group_keys (rows c))) @ '')''))
                 @ [complete_notice]"
      by (simp add: analyze_covid_data_def tb ls)
    have b: "bar_chart \<notin> set (analyze_covid_data fs parse p sel)"
      unfolding a using bar_chart_not_before bar_chart_not_handler bar_chart_not_notice
      by (simp del: handler.simps)
    have c: "Print (''An unexpected error occurred: ''
                       @ ''Length of values (3) does not match length of index (''
                       @ str_nat (length (group_keys (rows c))) @ '')'')
                \<in> set (analyze_covid_data fs parse p sel)"
      unfolding a by simp
    have d: "last (analyze_covid_data fs parse p sel) = complete_notice"
      unfolding a by simp
    from ls b c d show ?thesis by (intro conjI)
  qed
  have 3: "(\<exists>ls. latest_summary c = Inr ls
               \<and> map location ls = map Some (group_keys (rows c))
               \<and> map population ls = [Some 100000000, Some 330000000, Some 1400000000])
            \<and> bar_chart \<in> set (analyze_covid_data fs parse p sel)"
    if n: "length (group_keys (rows c)) = 3"
  proof -
    from latest_summary_match[OF hc n] obtain ls where
      ls: "latest_summary c = Inr ls" "map location ls = map Some (group_keys (rows c))"
        "map population ls = [Some 100000000, Some 330000000, Some 1400000000]"
      by (elim exE conjE)
    have b: "bar_chart \<in> set (analyze_covid_data fs parse p sel)"
      by (simp add: analyze_covid_data_def tb ls(1))
    from ls have "\<exists>ls. latest_summary c = Inr ls
               \<and> map location ls = map Some (group_keys (rows c))
               \<and> map population ls = [Some 100000000, Some 330000000, Some 1400000000]"
      by (intro exI[of _ ls] conjI)
    with b show ?thesis by (rule conjI[rotated])
  qed
  have 4: "latest_summary c = Inr (map reindexed_row [100000000, 330000000, 1400000000])"
    if n: "length (group_keys (rows c)) = 0"
    by (rule latest_summary_empty[OF hc n])
  show ?thesis
    by (rule conjI[OF 1 conjI[OF impI[OF 2] conjI[OF impI[OF 3] impI[OF 4]]]])
qed

theorem population_snapshot_needs_three_entities_witness:
  "(Map.empty(''data.csv'' \<mapsto> Table scenario_frame)) ''data.csv'' = Some (Table scenario_frame)
   \<and> clean scenario_parse [''A''] scenario_frame = Inr scenario_cleaned
   \<and> length (group_keys (rows scenario_cleaned)) \<noteq> 3
   \<and> length (group_keys (rows scenario_cleaned)) \<noteq> 0
   \<and> bar_chart \<notin> set (analyze_covid_data (Map.empty(''data.csv'' \<mapsto> Table scenario_frame))
                          scenario_parse ''data.csv'' [''A''])
   \<and> last (analyze_covid_data (Map.empty(''data.csv'' \<mapsto> Table scenario_frame))
             scenario_parse ''data.csv'' [''A'']) = complete_notice
   \<and> (Map.empty(''data.csv'' \<mapsto> Table three_frame)) ''data.csv'' = Some (Table three_frame)
   \<and> clean scenario_parse [''Kenya'', ''United States'', ''India''] three_frame = Inr three_cleaned
   \<and> length (group_keys (rows three_cleaned)) = 3
   \<and> (\<exists>ls. latest_summary three_cleaned = Inr ls
          \<and> map location ls = map Some (group_keys (rows three_cleaned))
          \<and> map population ls = [Some 100000000, Some 330000000, Some 1400000000])
   \<and> group_keys (rows three_cleaned) = [''India'', ''Kenya'', ''United States'']
   \<and> bar_chart \<in> set (analyze_covid_data (Map.empty(''data.csv'' \<mapsto> Table three_frame))
                          scenario_parse ''data.csv'' [''Kenya'', ''United States'', ''India''])
   \<and> clean scenario_parse [''USA''] three_frame = Inr empty_cleaned
   \<and> length (group_keys (rows empty_cleaned)) = 0
   \<and> latest_summary empty_cleaned = Inr (map reindexed_row [100000000, 330000000, 1400000000])"
proof -
  have fa: "(Map.empty(''data.csv'' \<mapsto> Table scenario_frame)) ''data.csv''
              = Some (Table scenario_frame)"
    by simp
  have fb: "(Map.empty(''data.csv'' \<mapsto> Table three_frame)) ''data.csv'' = Some (Table three_frame)"
    by simp
  have ka: "length (group_keys (rows scenario_cleaned)) \<noteq> 3"
    by (simp add: scenario_cleaned_def group_keys_def)
  have ka0: "length (group_keys (rows scenario_cleaned)) \<noteq> 0"
    by (simp add: scenario_cleaned_def group_keys_def)
  have kb: "group_keys (rows three_cleaned) = [''India'', ''Kenya'', ''United States'']"
    by (simp add: three_cleaned_def group_keys_def)
  then have kc: "length (group_keys (rows three_cleaned)) = 3"
    by simp
  have ke: "length (group_keys (rows empty_cleaned)) = 0"
    by (simp add: empty_cleaned_def group_keys_def)
  note ta = population_snapshot_needs_three_entities
    [of "Map.empty(''data.csv'' \<mapsto> Table scenario_frame)" "''data.csv''" scenario_frame
        scenario_parse "[''A'']" scenario_cleaned, OF fa scenario_run]
  note tb = population_snapshot_needs_three_entities
    [of "Map.empty(''data.csv'' \<mapsto> Table three_frame)" "''data.csv''" three_frame
        scenario_parse "[''Kenya'', ''United States'', ''India'']" three_cleaned, OF fb three_run]
  note te = population_snapshot_needs_three_entities
    [of "Map.empty(''data.csv'' \<mapsto> Table three_frame)" "''data.csv''" three_frame
        scenario_parse "[''USA'']" empty_cleaned, OF fb empty_run]
  from ta have "length (group_keys (rows scenario_cleaned)) \<noteq> 3
      \<and> length (group_keys (rows scenario_cleaned)) \<noteq> 0 \<longrightarrow>
      latest_summary scenario_cleaned
        = Inl (Exception (''Length of values (3) does not match length of index (''
                            @ str_nat (length (group_keys (rows scenario_cleaned))) @ '')''))
      \<and> bar_chart \<notin> set (analyze_covid_data (Map.empty(''data.csv'' \<mapsto> Table scenario_frame))
                          scenario_parse ''data.csv'' [''A''])
      \<and> Print (''An unexpected error occurred: ''
                 @ ''Length of values (3) does not match length of index (''
                 @ str_nat (length (group_keys (rows scenario_cleaned))) @ '')'')
          \<in> set (analyze_covid_data (Map.empty(''data.csv'' \<mapsto> Table scenario_frame))
                          scenario_parse ''data.csv'' [''A''])
      \<and> last (analyze_covid_data (Map.empty(''data.csv'' \<mapsto> Table scenario_frame))
             scenario_parse ''data.csv'' [''A'']) = complete_notice"
    by (elim conjE)
  note xa = this[rule_format, OF conjI[OF ka ka0]]
  from xa have
    a1: "bar_chart \<notin> set (analyze_covid_data (Map.empty(''data.csv'' \<mapsto> Table scenario_frame))
                          scenario_parse ''data.csv'' [''A''])"
    by (elim conjE)
  from xa have
    a2: "last (analyze_covid_data (Map.empty(''data.csv'' \<mapsto> Table scenario_frame))
             scenario_parse ''data.csv'' [''A'']) = complete_notice"
    by (elim conjE)
  from tb have "length (group_keys (rows three_cleaned)) = 3 \<longrightarrow>
      (\<exists>ls. latest_summary three_cleaned = Inr ls
          \<and> map location ls = map Some (group_keys (rows three_cleaned))
          \<and> map population ls = [Some 100000000, Some 330000000, Some 1400000000])
      \<and> bar_chart \<in> set (analyze_covid_data (Map.empty(''data.csv'' \<mapsto> Table three_frame))
                          scenario_parse ''data.csv'' [''Kenya'', ''United States'', ''India''])"
    by (elim conjE)
  note xb = this[rule_format, OF kc]
  from xb have
    b1: "\<exists>ls. latest_summary three_cleaned = Inr ls
          \<and> map location ls = map Some (group_keys (rows three_cleaned))
          \<and> map population ls = [Some 100000000, Some 330000000, Some 1400000000]"
    by (elim conjE)
  from xb have
    b2: "bar_chart \<in> set (analyze_covid_data (Map.empty(''data.csv'' \<mapsto> Table three_frame))
                          scenario_parse ''data.csv'' [''Kenya'', ''United States'', ''India''])"
    by (elim conjE)
  from te have "length (group_keys (rows empty_cleaned)) = 0 \<longrightarrow>
      latest_summary empty_cleaned = Inr (map reindexed_row [100000000, 330000000, 1400000000])"
    by (elim conjE)
  note e1 = this[rule_format, OF ke]
  show ?thesis
    by (intro conjI) (rule fa scenario_run ka ka0 a1 a2 fb three_run kc b1 kb b2 empty_run ke e1)+
qed

text \<open>
  C9 as stated fails: with the selection \<^verbatim>\<open>['USA']\<close> on a table that has no such
  country the cleaned table is empty, the number of countries is 0 and not 3, and line
  133 raises nothing: it gives the summary three rows.
\<close>
theorem population_snapshot_needs_three_entities_counterexample:
  "clean scenario_parse [''USA''] three_frame = Inr empty_cleaned
   \<and> length (group_keys (rows empty_cleaned)) = 0
   \<and> set_population snapshot_population (reset_index (groupby_last (rows empty_cleaned)))
       = Inr (map reindexed_row [100000000, 330000000, 1400000000])"
proof -
  have 1: "length (group_keys (rows empty_cleaned)) = 0"
    by (simp add: empty_cleaned_def group_keys_def)
  have 2: "set_population snapshot_population (reset_index (groupby_last (rows empty_cleaned)))
       = Inr (map reindexed_row [100000000, 330000000, 1400000000])"
    by (simp add: empty_cleaned_def groupby_last_def group_keys_def reset_index_def
        set_population_def snapshot_population_def)
  from empty_run 1 2 show ?thesis by (intro conjI)
qed

end
